theory Spec2Isabelle
  imports Complex_Main
begin

section \<open>Go integers, bytes and strings\<close>

text \<open>
  Go's \<^verbatim>\<open>int\<close> is 64 bits wide.  Values are modelled as \<^typ>\<open>int\<close>; where an
  operand comes straight from the score text, so that the arithmetic can leave the
  64-bit range, the wrap-around is written out with \<open>wrap64\<close>.  Counters that are
  bounded by the length of the input (positions, ticks of a parsed track, queue
  indices) are left unwrapped.  Go's \<^verbatim>\<open>/\<close> and \<^verbatim>\<open>%\<close> truncate towards zero.
\<close>

definition wrap64 :: "int \<Rightarrow> int" where
  "wrap64 x = (x + 2 ^ 63) mod 2 ^ 64 - 2 ^ 63"

definition maxInt64 :: int where
  "maxInt64 = 2 ^ 63 - 1"

definition go_div :: "int \<Rightarrow> int \<Rightarrow> int" where
  "go_div a b = wrap64 (sgn a * sgn b * (\<bar>a\<bar> div \<bar>b\<bar>))"

definition go_rem :: "int \<Rightarrow> int \<Rightarrow> int" where
  "go_rem a b = a - b * (sgn a * sgn b * (\<bar>a\<bar> div \<bar>b\<bar>))"

definition clampInt :: "int \<Rightarrow> int \<Rightarrow> int \<Rightarrow> int" where
  "clampInt v lo hi = (if v < lo then lo else if v > hi then hi else v)"

definition absInt :: "int \<Rightarrow> int" where
  "absInt v = (if v < 0 then wrap64 (- v) else v)"

definition maxInt :: "int \<Rightarrow> int \<Rightarrow> int" where
  "maxInt a b = (if a > b then a else b)"

text \<open>
  A Go string is a sequence of bytes, indexed from 0; \<^typ>\<open>string\<close> is a list of
  8-bit characters.  \<open>byte\<close> reads a character as its code.  \<open>slice s a b\<close> is
  \<^verbatim>\<open>s[a:b]\<close>; the source only slices within bounds.
\<close>

definition byte :: "char \<Rightarrow> nat" where
  "byte c = of_char c"

definition slice :: "'a list \<Rightarrow> nat \<Rightarrow> nat \<Rightarrow> 'a list" where
  "slice s a b = take (b - a) (drop a s)"

definition hasPrefix :: "string \<Rightarrow> string \<Rightarrow> bool" where
  "hasPrefix s p = (take (length p) s = p)"

definition isDigit :: "char \<Rightarrow> bool" where
  "isDigit c = (48 \<le> byte c \<and> byte c \<le> 57)"

definition isUpper :: "char \<Rightarrow> bool" where
  "isUpper c = (65 \<le> byte c \<and> byte c \<le> 90)"

definition isLowerLetter :: "char \<Rightarrow> bool" where
  "isLowerLetter c = (97 \<le> byte c \<and> byte c \<le> 122)"

definition lower :: "char \<Rightarrow> char" where
  "lower b = (if isUpper b then char_of (byte b + 32) else b)"

definition upperByte :: "char \<Rightarrow> char" where
  "upperByte b = (if isLowerLetter b then char_of (byte b - 32) else b)"

definition isSpace :: "char \<Rightarrow> bool" where
  "isSpace b = (b = CHR '' '' \<or> b = CHR 0x0A \<or> b = CHR 0x0D \<or> b = CHR 0x09)"

definition isAlpha :: "char \<Rightarrow> bool" where
  "isAlpha b = (isLowerLetter b \<or> isUpper b)"

definition isMacroName :: "char \<Rightarrow> bool" where
  "isMacroName b = isUpper b"

text \<open>
  \<^verbatim>\<open>strings.ToLower\<close>, \<^verbatim>\<open>strings.ToUpper\<close> and \<^verbatim>\<open>strings.TrimSpace\<close> on ASCII text:
  letters are mapped bytewise and the white space trimmed is
  \<^verbatim>\<open>\t \n \v \f \r\<close> and the blank.  Bytes from 0x80 on are left alone (Go decodes them
  as UTF-8 there; command names and directive bodies of a score are ASCII).
\<close>

definition toLower :: "string \<Rightarrow> string" where
  "toLower s = map lower s"

definition toUpper :: "string \<Rightarrow> string" where
  "toUpper s = map upperByte s"

definition isTrimSpace :: "char \<Rightarrow> bool" where
  "isTrimSpace b = (b = CHR '' '' \<or> (9 \<le> byte b \<and> byte b \<le> 13))"

definition trimSpace :: "string \<Rightarrow> string" where
  "trimSpace s = rev (dropWhile isTrimSpace (rev (dropWhile isTrimSpace s)))"

fun indexByteFrom :: "string \<Rightarrow> char \<Rightarrow> nat \<Rightarrow> nat option" where
  "indexByteFrom [] c k = None"
| "indexByteFrom (x # xs) c k = (if x = c then Some k else indexByteFrom xs c (Suc k))"

definition indexByte :: "string \<Rightarrow> char \<Rightarrow> nat option" where
  "indexByte s c = indexByteFrom s c 0"

fun indexFrom :: "string \<Rightarrow> string \<Rightarrow> nat \<Rightarrow> nat option" where
  "indexFrom [] p k = (if p = [] then Some k else None)"
| "indexFrom (x # xs) p k = (if hasPrefix (x # xs) p then Some k else indexFrom xs p (Suc k))"

definition index :: "string \<Rightarrow> string \<Rightarrow> nat option" where
  "index s p = indexFrom s p 0"

definition contains :: "string \<Rightarrow> string \<Rightarrow> bool" where
  "contains s p = (index s p \<noteq> None)"

text \<open>
  \<^verbatim>\<open>strconv.Atoi\<close>: an optional sign, then decimal digits only; it fails on an empty
  digit string, on any other byte and on a value outside the 64-bit range.
\<close>

definition digitsValue :: "string \<Rightarrow> int" where
  "digitsValue ds = foldl (\<lambda>a c. 10 * a + (int (byte c) - 48)) 0 ds"

definition atoi :: "string \<Rightarrow> int option" where
  "atoi s =
    (let neg = (s \<noteq> [] \<and> hd s = CHR ''-'');
         ds = (if s \<noteq> [] \<and> (hd s = CHR ''-'' \<or> hd s = CHR ''+'') then tl s else s);
         v = (if neg then - digitsValue ds else digitsValue ds)
     in if ds = [] \<or> \<not> list_all isDigit ds then None
        else if v < - (2 ^ 63) \<or> v > maxInt64 then None
        else Some v)"

section \<open>Scores: events, tracks, parser configuration\<close>

datatype EventType =
    EventNote | EventRest | EventTempo | EventVolume | EventFineVolume | EventProgram
  | EventPan | EventExpression | EventModule | EventDetune | EventTranspose
  | EventQuantize | EventKeyOnDelay | EventSlur | EventTableEnv | EventControl

datatype SlurMode = SlurNone | SlurNormal | SlurWeak

record Event =
  ev_Type :: EventType
  ev_Tick :: int
  ev_Duration :: int
  ev_Note :: int
  ev_Value :: int
  ev_Program :: int
  ev_Pan :: int
  ev_Module :: int
  ev_Channel :: int
  ev_Detune :: int
  ev_Expr :: int
  ev_GateTick :: int
  ev_Delay :: int
  ev_Slur :: SlurMode
  ev_Command :: string
  ev_Text :: string
  ev_Values :: "int list"

text \<open>An event literal that names only some fields: the others are Go's zero values.\<close>

definition newEvent :: "EventType \<Rightarrow> int \<Rightarrow> Event" where
  "newEvent ty tick =
    \<lparr> ev_Type = ty, ev_Tick = tick, ev_Duration = 0, ev_Note = 0, ev_Value = 0,
      ev_Program = 0, ev_Pan = 0, ev_Module = 0, ev_Channel = 0, ev_Detune = 0,
      ev_Expr = 0, ev_GateTick = 0, ev_Delay = 0, ev_Slur = SlurNone,
      ev_Command = [], ev_Text = [], ev_Values = [] \<rparr>"

record Track =
  tr_Events :: "Event list"
  tr_EndTick :: int
  tr_LoopTick :: int
  tr_LoopIndex :: int

record 'f ParserConfig =
  cfg_Resolution :: int
  cfg_DefaultBPM :: 'f
  cfg_DefaultLValue :: int
  cfg_DefaultOctave :: int
  cfg_MinOctave :: int
  cfg_MaxOctave :: int
  cfg_DefaultVolume :: int
  cfg_DefaultFineVol :: int
  cfg_OctavePolarize :: int

section \<open>Floating point\<close>

text \<open>
  Tempo and velocity are computed in \<^verbatim>\<open>float64\<close>.  The embedding does not fix a
  floating-point semantics: the operations are a parameter \<open>fl\<close> of every function
  that computes with floats, and the theorems hold for every interpretation of them.
  \<open>f_to_int\<close> is the conversion \<^verbatim>\<open>int(x)\<close>, \<open>f_round\<close> is \<^verbatim>\<open>math.Round\<close>.
\<close>

record 'f float_ops =
  f_of_int :: "int \<Rightarrow> 'f"
  f_add :: "'f \<Rightarrow> 'f \<Rightarrow> 'f"
  f_sub :: "'f \<Rightarrow> 'f \<Rightarrow> 'f"
  f_mul :: "'f \<Rightarrow> 'f \<Rightarrow> 'f"
  f_div :: "'f \<Rightarrow> 'f \<Rightarrow> 'f"
  f_less :: "'f \<Rightarrow> 'f \<Rightarrow> bool"
  f_le :: "'f \<Rightarrow> 'f \<Rightarrow> bool"
  f_to_int :: "'f \<Rightarrow> int"
  f_round :: "'f \<Rightarrow> 'f"
  f_sqrt :: "'f \<Rightarrow> 'f"
  f_pow :: "'f \<Rightarrow> 'f \<Rightarrow> 'f"
  f_max :: "'f \<Rightarrow> 'f \<Rightarrow> 'f"

definition DefaultParserConfig :: "'f float_ops \<Rightarrow> 'f ParserConfig" where
  "DefaultParserConfig fl =
    \<lparr> cfg_Resolution = 1920, cfg_DefaultBPM = f_of_int fl 120, cfg_DefaultLValue = 4,
      cfg_DefaultOctave = 5, cfg_MinOctave = 0, cfg_MaxOctave = 9,
      cfg_DefaultVolume = 16, cfg_DefaultFineVol = 127, cfg_OctavePolarize = - 1 \<rparr>"

section \<open>The parser: numbers, lengths and notes\<close>

datatype perror =
    ErrNumber
  | ErrOctaveRange nat
  | ErrUnmatchedClose nat
  | ErrUnclosedOpen
  | ErrUnclosedLoop
  | ErrPosition nat
  | ErrDivideByZero

record parserOptions =
  opt_quantMax :: int
  opt_tempoMode :: string
  opt_tempoUnit :: int
  opt_tempoFPS :: int

record 'f parseState =
  st_resolution :: int
  st_tick :: int
  st_octave :: int
  st_defaultLen :: int
  st_bpm :: 'f
  st_volume :: int
  st_fineVol :: int
  st_expression :: int
  st_quantMax :: int
  st_quantValue :: int
  st_gatePercent :: int
  st_keyOffTick :: int
  st_keyOnDelay :: int
  st_slurMode :: SlurMode
  st_transpose :: int
  st_detune :: int
  st_pan :: int
  st_program :: int
  st_module :: int
  st_channel :: int
  st_revVolume :: bool
  st_keySig :: "char \<rightharpoonup> int"
  st_vmode :: string
  st_vScaleMode :: int
  st_vScaleMax :: int
  st_xScaleMode :: int

text \<open>Reading a Go map: a missing key gives the zero value.\<close>

definition lookupInt :: "('k \<rightharpoonup> int) \<Rightarrow> 'k \<Rightarrow> int" where
  "lookupInt m k = (case m k of None \<Rightarrow> 0 | Some v \<Rightarrow> v)"

definition lookupStr :: "('k \<rightharpoonup> string) \<Rightarrow> 'k \<Rightarrow> string" where
  "lookupStr m k = (case m k of None \<Rightarrow> [] | Some v \<Rightarrow> v)"

definition noteOffsets :: "char \<rightharpoonup> int" where
  "noteOffsets =
    [CHR ''c'' \<mapsto> 0, CHR ''d'' \<mapsto> 2, CHR ''e'' \<mapsto> 4, CHR ''f'' \<mapsto> 5,
     CHR ''g'' \<mapsto> 7, CHR ''a'' \<mapsto> 9, CHR ''b'' \<mapsto> 11]"

definition isNote :: "char \<Rightarrow> bool" where
  "isNote b = (noteOffsets b \<noteq> None)"

text \<open>The index after the run of decimal digits that starts at \<open>pos\<close>.\<close>

definition scanDigits :: "string \<Rightarrow> nat \<Rightarrow> nat" where
  "scanDigits s pos = pos + length (takeWhile isDigit (drop pos s))"

definition parseNumberOptional :: "string \<Rightarrow> nat \<Rightarrow> perror + (int \<times> nat)" where
  "parseNumberOptional s pos =
    (let i = scanDigits s pos in
     if pos = i then Inr (- 1, i)
     else (case atoi (slice s pos i) of
             None \<Rightarrow> Inl ErrNumber
           | Some n \<Rightarrow> Inr (n, i)))"

definition parseNumberDefault :: "string \<Rightarrow> nat \<Rightarrow> int \<Rightarrow> perror + (int \<times> nat)" where
  "parseNumberDefault s pos def =
    (case parseNumberOptional s pos of
       Inl e \<Rightarrow> Inl e
     | Inr (v, i) \<Rightarrow> if v = - 1 then Inr (def, i) else Inr (v, i))"

definition parseSignedNumberDefault :: "string \<Rightarrow> nat \<Rightarrow> int \<Rightarrow> perror + (int \<times> nat)" where
  "parseSignedNumberDefault s pos def =
    (if pos \<ge> length s then Inr (def, pos)
     else
       let sign = (if s ! pos = CHR ''-'' then - 1 else 1);
           i = (if s ! pos = CHR ''+'' \<or> s ! pos = CHR ''-'' then pos + 1 else pos)
       in (case parseNumberOptional s i of
             Inl e \<Rightarrow> Inl e
           | Inr (v, next) \<Rightarrow> if v = - 1 then Inr (def, next) else Inr (sign * v, next)))"

text \<open>
  A length token: an optional number \<open>N\<close> (the length is \<open>resolution / N\<close>, else the
  default length), then dots; each dot adds half of the previous increment
  (\<^verbatim>\<open>term >>= 1\<close>, an arithmetic shift).
\<close>

fun dotted :: "nat \<Rightarrow> int \<Rightarrow> int \<Rightarrow> int" where
  "dotted 0 term dur = dur"
| "dotted (Suc k) term dur = dotted k (term div 2) (dur + term div 2)"

definition parseLengthToken :: "string \<Rightarrow> nat \<Rightarrow> ('f, 'x) parseState_scheme \<Rightarrow> perror + (int \<times> nat)" where
  "parseLengthToken s pos st =
    (case parseNumberOptional s pos of
       Inl e \<Rightarrow> Inl e
     | Inr (val, i) \<Rightarrow>
         let base = (if val > 0 then go_div (st_resolution st) val else st_defaultLen st);
             dots = length (takeWhile (\<lambda>c. c = CHR ''.'') (drop i s))
         in Inr (dotted dots base base, i + dots))"

lemma scanDigits_ge: "pos \<le> scanDigits s pos"
  by (simp add: scanDigits_def)

lemma scanDigits_le: "pos \<le> length s \<Longrightarrow> scanDigits s pos \<le> length s"
proof -
  assume a: "pos \<le> length s"
  have "length (takeWhile isDigit (drop pos s)) \<le> length (drop pos s)"
    by (rule length_takeWhile_le)
  with a show ?thesis by (simp add: scanDigits_def)
qed

lemma parseNumberOptional_next:
  "parseNumberOptional s pos = Inr (v, n) \<Longrightarrow> pos \<le> n"
  by (auto simp: parseNumberOptional_def Let_def scanDigits_ge split: if_splits option.splits)

lemma parseNumberDefault_next:
  "parseNumberDefault s pos d = Inr (v, n) \<Longrightarrow> pos \<le> n"
  by (auto simp: parseNumberDefault_def split: sum.splits if_splits
           dest: parseNumberOptional_next)

lemma parseSignedNumberDefault_next:
  "parseSignedNumberDefault s pos d = Inr (v, n) \<Longrightarrow> pos \<le> n"
  by (auto simp: parseSignedNumberDefault_def Let_def split: sum.splits if_splits
           dest!: parseNumberOptional_next)

lemma parseLengthToken_next:
  "parseLengthToken s pos st = Inr (d, n) \<Longrightarrow> pos \<le> n"
  by (auto simp: parseLengthToken_def Let_def split: sum.splits dest!: parseNumberOptional_next)

text \<open>Ties: every \<^verbatim>\<open>^\<close> adds the length token that follows it.\<close>

function tieLoop :: "string \<Rightarrow> ('f, 'x) parseState_scheme \<Rightarrow> int \<Rightarrow> nat \<Rightarrow> perror + (int \<times> nat)" where
  "tieLoop s st dur i =
    (if i < length s \<and> lower (s ! i) = CHR ''^'' then
       (case parseLengthToken s (i + 1) st of
          Inl e \<Rightarrow> Inl e
        | Inr (extra, next) \<Rightarrow> tieLoop s st (dur + extra) next)
     else Inr (dur, i))"
  by pat_completeness auto
termination
  by (relation "measure (\<lambda>(s, st, dur, i). length s - i)")
     (auto dest!: parseLengthToken_next)

declare tieLoop.simps [simp del]

definition parseLengthWithTie :: "string \<Rightarrow> nat \<Rightarrow> ('f, 'x) parseState_scheme \<Rightarrow> perror + (int \<times> nat)" where
  "parseLengthWithTie s pos st =
    (case parseLengthToken s pos st of
       Inl e \<Rightarrow> Inl e
     | Inr (dur, i) \<Rightarrow> tieLoop s st dur i)"

definition parseGateDuration :: "int \<Rightarrow> int \<Rightarrow> int" where
  "parseGateDuration dur gatePercent =
    (if gatePercent \<le> 0 then 0
     else
       let gated = go_div (wrap64 (dur * gatePercent)) 100
       in if gated \<le> 0 \<and> dur > 0 then 1 else gated)"

definition convertQuarter192ToTicks :: "int \<Rightarrow> int \<Rightarrow> int" where
  "convertQuarter192ToTicks v resolution =
    (if v < 0 then v
     else go_div (wrap64 (v * (if resolution \<le> 0 then 1920 else resolution))) 192)"

definition normalizePanValue :: "int \<Rightarrow> int" where
  "normalizePanValue v =
    (if v \<ge> 0 \<and> v \<le> 8 then (v - 4) * 16
     else if v > 64 then 64
     else if v < - 64 then - 64
     else v)"

subsection \<open>Velocity\<close>

definition dbScale :: "'f float_ops \<Rightarrow> 'f \<Rightarrow> int \<Rightarrow> 'f" where
  "dbScale fl nrm dbRange =
    (if f_le fl nrm (f_of_int fl 0) then f_of_int fl 0
     else if f_le fl (f_of_int fl 1) nrm then f_of_int fl 1
     else f_pow fl (f_of_int fl 10)
            (f_div fl (f_mul fl (f_of_int fl (- dbRange)) (f_sub fl (f_of_int fl 1) nrm))
                      (f_of_int fl 20)))"

definition clampUnit :: "'f float_ops \<Rightarrow> 'f \<Rightarrow> 'f" where
  "clampUnit fl x =
    (let y = (if f_less fl x (f_of_int fl 0) then f_of_int fl 0 else x)
     in if f_less fl (f_of_int fl 1) y then f_of_int fl 1 else y)"

definition scaledVelocity ::
  "'f float_ops \<Rightarrow> int \<Rightarrow> int \<Rightarrow> int \<Rightarrow> int \<Rightarrow> int \<Rightarrow> int \<Rightarrow> string \<Rightarrow> int" where
  "scaledVelocity fl volume expression fineVol vScaleMode vScaleMax xScaleMode vmode =
    (let volMax = (if vScaleMax \<le> 0 then 16 else vScaleMax);
         vol = clampInt volume 0 127;
         expr = clampInt expression 0 128;
         fine = clampInt fineVol 0 128;
         volNorm = clampUnit fl (f_div fl (f_of_int fl vol) (f_of_int fl volMax));
         exprNorm = f_div fl (f_of_int fl expr) (f_of_int fl 128);
         volNorm' =
           (if vScaleMode = 1 \<or> (contains vmode ''n88'' \<and> vScaleMode = 0) then dbScale fl volNorm 96
            else if vScaleMode = 2 \<or> (contains vmode ''mdx'' \<and> vScaleMode = 0) then dbScale fl volNorm 64
            else if vScaleMode = 3 \<or> (contains vmode ''mck'' \<and> vScaleMode = 0) then dbScale fl volNorm 48
            else if vScaleMode = 4 \<or> (contains vmode ''tss'' \<and> vScaleMode = 0) then dbScale fl volNorm 32
            else volNorm);
         exprNorm' =
           (if xScaleMode = 1 then f_sqrt fl exprNorm
            else if xScaleMode = 2 then f_mul fl exprNorm exprNorm
            else if xScaleMode = 3 then dbScale fl exprNorm 48
            else if xScaleMode = 4 then dbScale fl exprNorm 32
            else exprNorm);
         vel = f_mul fl (f_mul fl (f_mul fl volNorm' exprNorm')
                 (f_div fl (f_of_int fl fine) (f_of_int fl 128))) (f_of_int fl 127)
     in clampInt (f_to_int fl (f_round fl vel)) 0 127)"

subsection \<open>Notes\<close>

text \<open>
  The accidentals after a note letter: \<^verbatim>\<open>#\<close> and \<^verbatim>\<open>+\<close> raise, \<^verbatim>\<open>-\<close> and \<^verbatim>\<open>b\<close> lower.
  The result is the shift and the number of bytes read.
\<close>

fun scanAccidentals :: "string \<Rightarrow> int \<times> nat" where
  "scanAccidentals [] = (0, 0)"
| "scanAccidentals (c # cs) =
    (if lower c = CHR ''#'' \<or> lower c = CHR ''+'' then
       (case scanAccidentals cs of (sh, n) \<Rightarrow> (sh + 1, n + 1))
     else if lower c = CHR ''-'' \<or> lower c = CHR ''b'' then
       (case scanAccidentals cs of (sh, n) \<Rightarrow> (sh - 1, n + 1))
     else (0, 0))"

definition clampNote :: "int \<Rightarrow> int" where
  "clampNote nn = (if nn < 0 then 0 else if nn > 127 then 127 else nn)"

definition noteEvent :: "'f float_ops \<Rightarrow> ('f, 'x) parseState_scheme \<Rightarrow> int \<Rightarrow> int \<Rightarrow> Event" where
  "noteEvent fl st nn dur =
    (let vel = scaledVelocity fl (st_volume st) (st_expression st) (st_fineVol st)
                 (st_vScaleMode st) (st_vScaleMax st) (st_xScaleMode st) (st_vmode st);
         gated = parseGateDuration dur (st_gatePercent st);
         noteDur =
           (if st_keyOffTick st > 0 then
              (let d = wrap64 (wrap64 (gated - st_keyOffTick st) - st_keyOnDelay st)
               in if d < 0 then 0 else d)
            else gated)
     in (newEvent EventNote (st_tick st))
          \<lparr> ev_Duration := noteDur, ev_Note := nn, ev_Value := vel,
            ev_Program := st_program st, ev_Pan := st_pan st, ev_Module := st_module st,
            ev_Channel := st_channel st, ev_Detune := st_detune st,
            ev_Expr := st_expression st, ev_GateTick := st_keyOffTick st,
            ev_Delay := st_keyOnDelay st, ev_Slur := st_slurMode st \<rparr>)"

definition parseNoteByNumber ::
  "'f float_ops \<Rightarrow> string \<Rightarrow> nat \<Rightarrow> ('f, 'x) parseState_scheme \<Rightarrow> perror + (Event \<times> int \<times> nat)" where
  "parseNoteByNumber fl s pos st =
    (case parseNumberDefault s (pos + 1) 60 of
       Inl e \<Rightarrow> Inl e
     | Inr (n0, next0) \<Rightarrow>
         let nn = clampNote (wrap64 (n0 + st_transpose st + go_div (st_detune st) 64))
         in (case parseLengthWithTie s next0 st of
               Inl e \<Rightarrow> Inl e
             | Inr (dur, next) \<Rightarrow> Inr (noteEvent fl st nn dur, dur, next)))"

definition parseNote ::
  "'f float_ops \<Rightarrow> string \<Rightarrow> nat \<Rightarrow> ('f, 'x) parseState_scheme \<Rightarrow> perror + (Event \<times> int \<times> nat)" where
  "parseNote fl s pos st =
    (let base = lookupInt noteOffsets (lower (s ! pos));
         (sh, n) = scanAccidentals (drop (pos + 1) s);
         i = pos + 1 + n;
         shift = (if n = 0 then sh + lookupInt (st_keySig st) (lower (s ! pos)) else sh)
     in (case parseLengthWithTie s i st of
           Inl e \<Rightarrow> Inl e
         | Inr (dur, next) \<Rightarrow>
             let nn = clampNote (wrap64 (st_octave st * 12 + base + shift
                                         + st_transpose st + go_div (st_detune st) 64))
             in Inr (noteEvent fl st nn dur, dur, next)))"

section \<open>The parser: one track\<close>

subsection \<open>Loop expansion\<close>

text \<open>
  \<^verbatim>\<open>[PRE|POST]n\<close> is unrolled textually before any event is read.  \<open>parseLoopBody\<close>
  starts after an opening bracket and returns the unrolled body and the index after
  the repeat count; \<open>pre\<close>, \<open>post\<close> and \<open>breakHit\<close> are its local variables.
\<close>

definition repeatText :: "int \<Rightarrow> string \<Rightarrow> string" where
  "repeatText n s = concat (replicate (nat n) s)"

function parseLoopBody ::
  "string \<Rightarrow> nat \<Rightarrow> nat \<Rightarrow> string \<Rightarrow> string \<Rightarrow> bool \<Rightarrow> perror + (string \<times> nat)" where
  "parseLoopBody src pos depth pre post breakHit =
    (if pos < length src then
       (if src ! pos = CHR ''['' then
          (case parseLoopBody src (pos + 1) (depth + 1) [] [] False of
             Inl e \<Rightarrow> Inl e
           | Inr (body, next) \<Rightarrow>
               if breakHit then parseLoopBody src next depth pre (post @ body) breakHit
               else parseLoopBody src next depth (pre @ body) post breakHit)
        else if src ! pos = CHR ''|'' \<and> depth = 1 then
          parseLoopBody src (pos + 1) depth pre post True
        else if src ! pos = CHR '']'' then
          (case parseNumberDefault src (pos + 1) 2 of
             Inl e \<Rightarrow> Inl e
           | Inr (repeat0, next) \<Rightarrow>
               let repeat = (if repeat0 < 1 then 1 else repeat0)
               in if breakHit then Inr (repeatText (repeat - 1) pre @ post, next)
                  else Inr (repeatText repeat pre, next))
        else if breakHit then parseLoopBody src (pos + 1) depth pre (post @ [src ! pos]) breakHit
        else parseLoopBody src (pos + 1) depth (pre @ [src ! pos]) post breakHit)
     else Inl ErrUnclosedLoop)"
  by pat_completeness auto

lemma parseLoopBody_next:
  "parseLoopBody_dom (src, pos, depth, pre, post, bh) \<Longrightarrow>
   parseLoopBody src pos depth pre post bh = Inr (body, n) \<Longrightarrow> pos < n"
proof (induction src pos depth pre post bh arbitrary: body n rule: parseLoopBody.pinduct)
  case (1 src pos depth pre post breakHit)
  note ps = parseLoopBody.psimps[OF "1.hyps"]
  show ?case
  proof (cases "pos < length src")
    case False
    with "1.prems" ps show ?thesis by simp
  next
    case lt: True
    show ?thesis
    proof (cases "src ! pos = CHR ''[''")
      case True
      show ?thesis
      proof (cases "parseLoopBody src (pos + 1) (depth + 1) [] [] False")
        case (Inl e)
        with "1.prems" ps lt True show ?thesis by simp
      next
        case (Inr r)
        obtain b nx where r: "r = (b, nx)" by (cases r)
        have a: "pos + 1 < nx" using "1.IH"(1)[OF lt True] Inr r by simp
        show ?thesis
        proof (cases breakHit)
          case bh: True
          have "parseLoopBody src nx depth pre (post @ b) breakHit = Inr (body, n)"
            using "1.prems" ps lt True Inr r bh by simp
          from "1.IH"(2)[OF lt True Inr[unfolded r] refl bh this] a show ?thesis by simp
        next
          case bh: False
          have "parseLoopBody src nx depth (pre @ b) post breakHit = Inr (body, n)"
            using "1.prems" ps lt True Inr r bh by simp
          from "1.IH"(3)[OF lt True Inr[unfolded r] refl bh this] a show ?thesis by simp
        qed
      qed
    next
      case nb: False
      show ?thesis
      proof (cases "src ! pos = CHR ''|'' \<and> depth = 1")
        case True
        have "parseLoopBody src (pos + 1) depth pre post True = Inr (body, n)"
          using "1.prems" ps lt nb True by auto
        from "1.IH"(4)[OF lt nb True this] show ?thesis by simp
      next
        case np: False
        show ?thesis
        proof (cases "src ! pos = CHR '']''")
          case True
          with "1.prems" ps lt nb np show ?thesis
            by (auto simp: Let_def split: sum.splits if_splits dest!: parseNumberDefault_next)
        next
          case nc: False
          show ?thesis
          proof (cases breakHit)
            case bh: True
            have "parseLoopBody src (pos + 1) depth pre (post @ [src ! pos]) breakHit = Inr (body, n)"
              using "1.prems" ps lt nb np nc bh by auto
            from "1.IH"(5)[OF lt nb np nc bh this] show ?thesis by simp
          next
            case bh: False
            have "parseLoopBody src (pos + 1) depth (pre @ [src ! pos]) post breakHit = Inr (body, n)"
              using "1.prems" ps lt nb np nc bh by auto
            from "1.IH"(6)[OF lt nb np nc bh this] show ?thesis by simp
          qed
        qed
      qed
    qed
  qed
qed

lemma parseLoopBody_total: "All parseLoopBody_dom"
  by (relation "measure (\<lambda>(src, pos, depth, pre, post, bh). length src - pos)")
     (auto dest!: parseLoopBody_next)

termination parseLoopBody
  using parseLoopBody_total by blast

declare parseLoopBody.simps [simp del]

lemma parseLoopBody_adv:
  "parseLoopBody src pos depth pre post bh = Inr (body, n) \<Longrightarrow> pos < n"
  using parseLoopBody_next parseLoopBody_total by blast

function parseExpanded :: "string \<Rightarrow> nat \<Rightarrow> nat \<Rightarrow> string \<Rightarrow> perror + (string \<times> nat)" where
  "parseExpanded src pos depth out =
    (if pos < length src then
       (if src ! pos = CHR '']'' then
          (if depth = 0 then Inl (ErrUnmatchedClose pos) else Inr (out, pos))
        else if src ! pos \<noteq> CHR ''['' then parseExpanded src (pos + 1) depth (out @ [src ! pos])
        else
          (case parseLoopBody src (pos + 1) (depth + 1) [] [] False of
             Inl e \<Rightarrow> Inl e
           | Inr (body, next) \<Rightarrow> parseExpanded src next depth (out @ body)))
     else if depth > 0 then Inl ErrUnclosedOpen
     else Inr (out, pos))"
  by pat_completeness auto
termination
  by (relation "measure (\<lambda>(src, pos, depth, out). length src - pos)")
     (auto dest!: parseLoopBody_adv)

declare parseExpanded.simps [simp del]

definition expandLoops :: "string \<Rightarrow> perror + string" where
  "expandLoops src =
    (case parseExpanded src 0 0 [] of
       Inl e \<Rightarrow> Inl e
     | Inr (out, i) \<Rightarrow> if i \<noteq> length src then Inl (ErrPosition i) else Inr out)"

subsection \<open>The initial parse state\<close>

text \<open>\<^verbatim>\<open>strings.Split(s, sep)\<close> for a one-byte separator.\<close>

fun splitOn :: "char \<Rightarrow> string \<Rightarrow> string list" where
  "splitOn c [] = [[]]"
| "splitOn c (x # xs) =
    (if x = c then [] # splitOn c xs
     else (case splitOn c xs of
             [] \<Rightarrow> [[x]]
           | p # ps \<Rightarrow> (x # p) # ps))"

definition keySigNatural :: "char \<rightharpoonup> int" where
  "keySigNatural =
    [CHR ''c'' \<mapsto> 0, CHR ''d'' \<mapsto> 0, CHR ''e'' \<mapsto> 0, CHR ''f'' \<mapsto> 0,
     CHR ''g'' \<mapsto> 0, CHR ''a'' \<mapsto> 0, CHR ''b'' \<mapsto> 0]"

fun setNotes :: "string \<Rightarrow> int \<Rightarrow> (char \<rightharpoonup> int) \<Rightarrow> (char \<rightharpoonup> int)" where
  "setNotes [] v m = m"
| "setNotes (n # ns) v m = setNotes ns v (m(n \<mapsto> v))"

definition keySigToken :: "(char \<rightharpoonup> int) \<Rightarrow> string \<Rightarrow> (char \<rightharpoonup> int)" where
  "keySigToken out tok0 =
    (let tok = trimSpace tok0 in
     if length tok < 2 then out
     else if out (hd tok) = None then out
     else if last tok = CHR ''+'' \<or> last tok = CHR ''#'' then out(hd tok \<mapsto> 1)
     else if last tok = CHR ''-'' \<or> last tok = CHR ''b'' then out(hd tok \<mapsto> - 1)
     else out(hd tok \<mapsto> 0))"

definition keySigOfKey :: "string \<Rightarrow> (char \<rightharpoonup> int)" where
  "keySigOfKey key =
    (if key = ''c'' \<or> key = ''am'' then keySigNatural
     else if key = ''g'' \<or> key = ''em'' then setNotes ''f'' 1 keySigNatural
     else if key = ''d'' \<or> key = ''bm'' then setNotes ''fc'' 1 keySigNatural
     else if key = ''a'' \<or> key = ''f#m'' then setNotes ''fcg'' 1 keySigNatural
     else if key = ''e'' \<or> key = ''c#m'' then setNotes ''fcgd'' 1 keySigNatural
     else if key = ''b'' \<or> key = ''g#m'' then setNotes ''fcgda'' 1 keySigNatural
     else if key = ''f#'' \<or> key = ''d#m'' then setNotes ''fcgdae'' 1 keySigNatural
     else if key = ''c#'' \<or> key = ''a#m'' then setNotes ''fcgdaeb'' 1 keySigNatural
     else if key = ''f'' \<or> key = ''dm'' then setNotes ''b'' (- 1) keySigNatural
     else if key = ''bb'' \<or> key = ''gm'' then setNotes ''be'' (- 1) keySigNatural
     else if key = ''eb'' \<or> key = ''cm'' then setNotes ''bea'' (- 1) keySigNatural
     else if key = ''ab'' \<or> key = ''fm'' then setNotes ''bead'' (- 1) keySigNatural
     else if key = ''db'' \<or> key = ''bbm'' then setNotes ''beadg'' (- 1) keySigNatural
     else if key = ''gb'' \<or> key = ''ebm'' then setNotes ''beadgc'' (- 1) keySigNatural
     else if key = ''cb'' \<or> key = ''abm'' then setNotes ''beadgcf'' (- 1) keySigNatural
     else keySigNatural)"

definition parseKeySignature :: "(string \<rightharpoonup> string) \<Rightarrow> (char \<rightharpoonup> int)" where
  "parseKeySignature defs =
    (let raw = trimSpace (lookupStr defs ''SIGN'') in
     if raw = [] then keySigNatural
     else
       let lowerRaw = toLower raw in
       if contains lowerRaw '','' then foldl keySigToken keySigNatural (splitOn CHR '','' lowerRaw)
       else keySigOfKey
              (filter (\<lambda>c. c \<noteq> CHR '' '')
                 (map (\<lambda>c. if c = CHR ''+'' then CHR ''#'' else c) lowerRaw)))"

definition isVolumeReversed :: "(string \<rightharpoonup> string) \<Rightarrow> bool" where
  "isVolumeReversed defs =
    (case defs ''REV'' of
       None \<Rightarrow> False
     | Some rev0 \<Rightarrow> (let r = toLower (trimSpace rev0) in r = [] \<or> contains r ''volume''))"

text \<open>
  \<open>newState\<close> divides by the configured default length value; Go panics on a zero
  divisor, which the model reports as \<open>ErrDivideByZero\<close>.
\<close>

definition newState ::
  "'f ParserConfig \<Rightarrow> parserOptions \<Rightarrow> (string \<rightharpoonup> string) \<Rightarrow> perror + 'f parseState" where
  "newState cfg opts defs =
    (let quantMax = (if opt_quantMax opts \<le> 0 then 8 else opt_quantMax opts);
         quantValue0 = go_div (wrap64 (quantMax * 3)) 4;
         quantValue = (if quantValue0 \<le> 0 then quantMax else quantValue0)
     in if cfg_DefaultLValue cfg = 0 then Inl ErrDivideByZero
        else Inr
          \<lparr> st_resolution = cfg_Resolution cfg,
            st_tick = 0,
            st_octave = cfg_DefaultOctave cfg,
            st_defaultLen = go_div (cfg_Resolution cfg) (cfg_DefaultLValue cfg),
            st_bpm = cfg_DefaultBPM cfg,
            st_volume = cfg_DefaultVolume cfg,
            st_fineVol = cfg_DefaultFineVol cfg,
            st_expression = 128,
            st_quantMax = quantMax,
            st_quantValue = quantValue,
            st_gatePercent = go_div (wrap64 (quantValue * 100)) quantMax,
            st_keyOffTick = - 1,
            st_keyOnDelay = 0,
            st_slurMode = SlurNone,
            st_transpose = 0,
            st_detune = 0,
            st_pan = 0,
            st_program = 0,
            st_module = 0,
            st_channel = 0,
            st_revVolume = isVolumeReversed defs,
            st_keySig = parseKeySignature defs,
            st_vmode = toLower (trimSpace (lookupStr defs ''VMODE'')),
            st_vScaleMode = 0,
            st_vScaleMax = 16,
            st_xScaleMode = 0 \<rparr>)"

subsection \<open>The command loop\<close>

text \<open>
  The local variables of \<^verbatim>\<open>parseTrack\<close>: the read position \<open>i\<close>, the parse state, the
  events emitted so far and the loop marker left by \<^verbatim>\<open>$\<close>.  Every case of the switch
  is a function from these to their next value, or to the error the case returns.
\<close>

record 'f trackLocals =
  pt_i :: nat
  pt_st :: "'f parseState"
  pt_events :: "Event list"
  pt_loopTick :: int
  pt_loopIndex :: int

definition step :: "'f trackLocals \<Rightarrow> 'f parseState \<Rightarrow> Event list \<Rightarrow> nat \<Rightarrow> 'f trackLocals" where
  "step L st evs next = L\<lparr> pt_st := st, pt_events := pt_events L @ evs, pt_i := next \<rparr>"

definition valueEvent :: "EventType \<Rightarrow> int \<Rightarrow> int \<Rightarrow> Event" where
  "valueEvent ty tick v = (newEvent ty tick)\<lparr> ev_Value := v \<rparr>"

definition controlEvent :: "int \<Rightarrow> string \<Rightarrow> int \<Rightarrow> Event" where
  "controlEvent tick cmd v = (newEvent EventControl tick)\<lparr> ev_Command := cmd, ev_Value := v \<rparr>"

definition startsWithWord :: "string \<Rightarrow> nat \<Rightarrow> string \<Rightarrow> bool" where
  "startsWithWord src pos word =
    (pos + length word \<le> length src
     \<and> map lower (slice src pos (pos + length word)) = map lower word)"

definition isWordByte :: "char \<Rightarrow> bool" where
  "isWordByte c = (isLowerLetter c \<or> isUpper c \<or> c = CHR ''@'' \<or> c = CHR ''_'')"

definition parseWordToken :: "string \<Rightarrow> nat \<Rightarrow> string \<times> nat" where
  "parseWordToken src pos =
    (let i = pos + length (takeWhile isWordByte (drop pos src)) in (slice src pos i, i))"

text \<open>The raw argument tail kept by \<^verbatim>\<open>@name\<close> and \<^verbatim>\<open>mp\<close>/\<^verbatim>\<open>ma\<close>/\<^verbatim>\<open>mf\<close>.\<close>

definition isTailByte :: "char \<Rightarrow> bool" where
  "isTailByte c = (c = CHR '','' \<or> c = CHR ''+'' \<or> c = CHR ''-'' \<or> isDigit c \<or> isSpace c)"

definition skipTail :: "string \<Rightarrow> nat \<Rightarrow> nat" where
  "skipTail s next = next + length (takeWhile isTailByte (drop next s))"

text \<open>\<^verbatim>\<open>256 >> mv\<close> for a positive shift count.\<close>

definition shiftRight :: "int \<Rightarrow> int \<Rightarrow> int" where
  "shiftRight x k = (if k \<ge> 64 then 0 else x div 2 ^ nat k)"

definition applyTMODETempo :: "'f float_ops \<Rightarrow> int \<Rightarrow> parserOptions \<Rightarrow> 'f" where
  "applyTMODETempo fl rawTempo opts =
    (if rawTempo \<le> 0 then f_of_int fl 120
     else if opt_tempoMode opts = ''unit'' then
       f_div fl (f_of_int fl rawTempo)
         (f_of_int fl (if opt_tempoUnit opts \<le> 0 then 100 else opt_tempoUnit opts))
     else if opt_tempoMode opts = ''fps'' then
       f_div fl
         (f_mul fl (f_of_int fl (if opt_tempoFPS opts \<le> 0 then 60 else opt_tempoFPS opts))
            (f_of_int fl 60))
         (f_of_int fl rawTempo)
     else f_of_int fl rawTempo)"

text \<open>Comma-separated argument lists: signed, unsigned, and the program arguments, which
  stop at the first malformed number instead of failing.\<close>

function commaArgsSigned :: "string \<Rightarrow> nat \<Rightarrow> int list \<Rightarrow> perror + (int list \<times> nat)" where
  "commaArgsSigned s next vals =
    (if next < length s \<and> s ! next = CHR '','' then
       (case parseSignedNumberDefault s (next + 1) 0 of
          Inl e \<Rightarrow> Inl e
        | Inr (arg, n2) \<Rightarrow> commaArgsSigned s n2 (vals @ [arg]))
     else Inr (vals, next))"
  by pat_completeness auto
termination
  by (relation "measure (\<lambda>(s, next, vals). length s - next)")
     (auto dest!: parseSignedNumberDefault_next)

declare commaArgsSigned.simps [simp del]

function commaArgs :: "string \<Rightarrow> nat \<Rightarrow> int list \<Rightarrow> perror + (int list \<times> nat)" where
  "commaArgs s next vals =
    (if next < length s \<and> s ! next = CHR '','' then
       (case parseNumberDefault s (next + 1) 0 of
          Inl e \<Rightarrow> Inl e
        | Inr (arg, n2) \<Rightarrow> commaArgs s n2 (vals @ [arg]))
     else Inr (vals, next))"
  by pat_completeness auto
termination
  by (relation "measure (\<lambda>(s, next, vals). length s - next)")
     (auto dest!: parseNumberDefault_next)

declare commaArgs.simps [simp del]

function commaArgsProgram :: "string \<Rightarrow> nat \<Rightarrow> int list \<Rightarrow> int list \<times> nat" where
  "commaArgsProgram s next vals =
    (if next < length s \<and> s ! next = CHR '','' then
       (case parseNumberDefault s (next + 1) 0 of
          Inl e \<Rightarrow> (vals, next)
        | Inr (arg, n2) \<Rightarrow> commaArgsProgram s n2 (vals @ [arg]))
     else (vals, next))"
  by pat_completeness auto
termination
  by (relation "measure (\<lambda>(s, next, vals). length s - next)")
     (auto dest!: parseNumberDefault_next)

declare commaArgsProgram.simps [simp del]

lemma commaArgsSigned_next: "commaArgsSigned s k vals = Inr (vs, n) \<Longrightarrow> k \<le> n"
proof (induction s k vals rule: commaArgsSigned.induct)
  case (1 s k vals)
  show ?case
  proof (cases "k < length s \<and> s ! k = CHR '',''")
    case False
    with "1.prems" show ?thesis by (simp add: commaArgsSigned.simps)
  next
    case True
    then obtain arg n2 where p: "parseSignedNumberDefault s (k + 1) 0 = Inr (arg, n2)"
      and r: "commaArgsSigned s n2 (vals @ [arg]) = Inr (vs, n)"
      using "1.prems" by (auto simp: commaArgsSigned.simps[of s "k"] split: sum.splits)
    from "1.IH"[OF True p refl r] parseSignedNumberDefault_next[OF p] show ?thesis by simp
  qed
qed

lemma commaArgs_next: "commaArgs s k vals = Inr (vs, n) \<Longrightarrow> k \<le> n"
proof (induction s k vals rule: commaArgs.induct)
  case (1 s k vals)
  show ?case
  proof (cases "k < length s \<and> s ! k = CHR '',''")
    case False
    with "1.prems" show ?thesis by (simp add: commaArgs.simps)
  next
    case True
    then obtain arg n2 where p: "parseNumberDefault s (k + 1) 0 = Inr (arg, n2)"
      and r: "commaArgs s n2 (vals @ [arg]) = Inr (vs, n)"
      using "1.prems" by (auto simp: commaArgs.simps[of s "k"] split: sum.splits)
    from "1.IH"[OF True p refl r] parseNumberDefault_next[OF p] show ?thesis by simp
  qed
qed

lemma commaArgsProgram_next: "commaArgsProgram s k vals = (vs, n) \<Longrightarrow> k \<le> n"
proof (induction s k vals rule: commaArgsProgram.induct)
  case (1 s k vals)
  show ?case
  proof (cases "k < length s \<and> s ! k = CHR '',''")
    case False
    with "1.prems" show ?thesis by (simp add: commaArgsProgram.simps)
  next
    case True
    show ?thesis
    proof (cases "parseNumberDefault s (k + 1) 0")
      case (Inl e)
      with True "1.prems" show ?thesis by (simp add: commaArgsProgram.simps[of s "k"])
    next
      case (Inr r)
      obtain arg n2 where r: "r = (arg, n2)" by (cases r)
      have c: "commaArgsProgram s n2 (vals @ [arg]) = (vs, n)"
        using True "1.prems" Inr r by (simp add: commaArgsProgram.simps[of s "k"])
      from "1.IH"[OF True Inr[unfolded r] refl c] parseNumberDefault_next[OF Inr[unfolded r]]
      show ?thesis by simp
    qed
  qed
qed

lemma tieLoop_next: "tieLoop s st dur i = Inr (d, n) \<Longrightarrow> i \<le> n"
proof (induction s st dur i rule: tieLoop.induct)
  case (1 s st dur i)
  show ?case
  proof (cases "i < length s \<and> lower (s ! i) = CHR ''^''")
    case False
    with "1.prems" show ?thesis by (simp add: tieLoop.simps)
  next
    case True
    then obtain extra nx where p: "parseLengthToken s (i + 1) st = Inr (extra, nx)"
      and r: "tieLoop s st (dur + extra) nx = Inr (d, n)"
      using "1.prems" by (auto simp: tieLoop.simps[of s st dur i] split: sum.splits)
    from "1.IH"[OF True p refl r] parseLengthToken_next[OF p] show ?thesis by simp
  qed
qed

lemma parseLengthWithTie_next: "parseLengthWithTie s pos st = Inr (d, n) \<Longrightarrow> pos \<le> n"
  by (auto simp: parseLengthWithTie_def split: sum.splits
           dest!: parseLengthToken_next tieLoop_next)

lemma parseNoteByNumber_next: "parseNoteByNumber fl s pos st = Inr (e, d, n) \<Longrightarrow> pos < n"
  by (auto simp: parseNoteByNumber_def Let_def split: sum.splits
           dest!: parseNumberDefault_next parseLengthWithTie_next)

lemma parseNote_next: "parseNote fl s pos st = Inr (e, d, n) \<Longrightarrow> pos < n"
  by (auto simp: parseNote_def Let_def split: sum.splits prod.splits
           dest!: parseLengthWithTie_next)

text \<open>The cases of the switch, in the order of the source.\<close>

definition caseNoteNumber :: "'f float_ops \<Rightarrow> string \<Rightarrow> 'f trackLocals \<Rightarrow> perror + 'f trackLocals" where
  "caseNoteNumber fl s L =
    (let st = pt_st L in
     case parseNoteByNumber fl s (pt_i L) st of
       Inl e \<Rightarrow> Inl e
     | Inr (evt, stepDur, next) \<Rightarrow>
         Inr (step L (st\<lparr> st_slurMode := SlurNone, st_tick := st_tick st + stepDur \<rparr>) [evt] next))"

definition caseNote :: "'f float_ops \<Rightarrow> string \<Rightarrow> 'f trackLocals \<Rightarrow> perror + 'f trackLocals" where
  "caseNote fl s L =
    (let st = pt_st L in
     case parseNote fl s (pt_i L) st of
       Inl e \<Rightarrow> Inl e
     | Inr (evt, stepDur, next) \<Rightarrow>
         Inr (step L (st\<lparr> st_slurMode := SlurNone, st_tick := st_tick st + stepDur \<rparr>) [evt] next))"

definition caseRest :: "string \<Rightarrow> 'f trackLocals \<Rightarrow> perror + 'f trackLocals" where
  "caseRest s L =
    (let st = pt_st L in
     case parseLengthWithTie s (pt_i L + 1) st of
       Inl e \<Rightarrow> Inl e
     | Inr (dur, next) \<Rightarrow>
         Inr (step L (st\<lparr> st_tick := st_tick st + dur \<rparr>)
                [(newEvent EventRest (st_tick st))\<lparr> ev_Duration := dur \<rparr>] next))"

definition caseLength :: "string \<Rightarrow> 'f trackLocals \<Rightarrow> perror + 'f trackLocals" where
  "caseLength s L =
    (let st = pt_st L in
     case parseLengthToken s (pt_i L + 1) st of
       Inl e \<Rightarrow> Inl e
     | Inr (len, next) \<Rightarrow> Inr (step L (st\<lparr> st_defaultLen := len \<rparr>) [] next))"

definition caseTempo :: "'f float_ops \<Rightarrow> parserOptions \<Rightarrow> string \<Rightarrow> 'f trackLocals \<Rightarrow> perror + 'f trackLocals" where
  "caseTempo fl opts s L =
    (let st = pt_st L in
     case parseNumberDefault s (pt_i L + 1) (f_to_int fl (st_bpm st)) of
       Inl e \<Rightarrow> Inl e
     | Inr (val, next) \<Rightarrow>
         let bpm = applyTMODETempo fl val opts
         in Inr (step L (st\<lparr> st_bpm := bpm \<rparr>)
                   [valueEvent EventTempo (st_tick st) (f_to_int fl (f_round fl bpm))] next))"

definition caseOctave :: "'f ParserConfig \<Rightarrow> string \<Rightarrow> 'f trackLocals \<Rightarrow> perror + 'f trackLocals" where
  "caseOctave cfg s L =
    (let st = pt_st L in
     case parseNumberDefault s (pt_i L + 1) (st_octave st) of
       Inl e \<Rightarrow> Inl e
     | Inr (val, next) \<Rightarrow>
         if val < cfg_MinOctave cfg \<or> val > cfg_MaxOctave cfg then Inl (ErrOctaveRange (pt_i L))
         else Inr (step L (st\<lparr> st_octave := val \<rparr>) [] next))"

definition shiftOctave :: "'f ParserConfig \<Rightarrow> 'f parseState \<Rightarrow> int \<Rightarrow> 'f parseState" where
  "shiftOctave cfg st delta =
    st\<lparr> st_octave := clampInt (wrap64 (st_octave st + delta)) (cfg_MinOctave cfg) (cfg_MaxOctave cfg) \<rparr>"

definition guillemetLeft :: string where
  "guillemetLeft = [CHR 0xC2, CHR 0xAB]"

definition guillemetRight :: string where
  "guillemetRight = [CHR 0xC2, CHR 0xBB]"

definition caseGuillemetLeft :: "'f ParserConfig \<Rightarrow> 'f trackLocals \<Rightarrow> perror + 'f trackLocals" where
  "caseGuillemetLeft cfg L =
    Inr (step L (shiftOctave cfg (pt_st L) (wrap64 (2 * cfg_OctavePolarize cfg))) []
           (pt_i L + length guillemetLeft))"

definition caseGuillemetRight :: "'f ParserConfig \<Rightarrow> 'f trackLocals \<Rightarrow> perror + 'f trackLocals" where
  "caseGuillemetRight cfg L =
    Inr (step L (shiftOctave cfg (pt_st L) (- wrap64 (2 * cfg_OctavePolarize cfg))) []
           (pt_i L + length guillemetRight))"

definition caseLess :: "'f ParserConfig \<Rightarrow> string \<Rightarrow> 'f trackLocals \<Rightarrow> perror + 'f trackLocals" where
  "caseLess cfg s L =
    (case parseNumberDefault s (pt_i L + 1) 1 of
       Inl e \<Rightarrow> Inl e
     | Inr (val, next) \<Rightarrow>
         Inr (step L (shiftOctave cfg (pt_st L) (wrap64 (val * cfg_OctavePolarize cfg))) [] next))"

definition caseGreater :: "'f ParserConfig \<Rightarrow> string \<Rightarrow> 'f trackLocals \<Rightarrow> perror + 'f trackLocals" where
  "caseGreater cfg s L =
    (case parseNumberDefault s (pt_i L + 1) 1 of
       Inl e \<Rightarrow> Inl e
     | Inr (val, next) \<Rightarrow>
         Inr (step L (shiftOctave cfg (pt_st L) (- wrap64 (val * cfg_OctavePolarize cfg))) [] next))"

definition caseVolume :: "string \<Rightarrow> 'f trackLocals \<Rightarrow> perror + 'f trackLocals" where
  "caseVolume s L =
    (let st = pt_st L in
     case parseNumberDefault s (pt_i L + 1) (st_volume st) of
       Inl e \<Rightarrow> Inl e
     | Inr (val, next) \<Rightarrow>
         Inr (step L (st\<lparr> st_volume := val \<rparr>) [valueEvent EventVolume (st_tick st) val] next))"

definition caseExpression :: "string \<Rightarrow> 'f trackLocals \<Rightarrow> perror + 'f trackLocals" where
  "caseExpression s L =
    (let st = pt_st L in
     case parseNumberDefault s (pt_i L + 1) (st_expression st) of
       Inl e \<Rightarrow> Inl e
     | Inr (val, next) \<Rightarrow>
         Inr (step L (st\<lparr> st_expression := clampInt val 0 128 \<rparr>)
                [valueEvent EventExpression (st_tick st) (clampInt val 0 128)] next))"

definition caseQuantize :: "string \<Rightarrow> 'f trackLocals \<Rightarrow> perror + 'f trackLocals" where
  "caseQuantize s L =
    (let st = pt_st L in
     case parseNumberDefault s (pt_i L + 1) (st_quantValue st) of
       Inl e \<Rightarrow> Inl e
     | Inr (val0, next) \<Rightarrow>
         let val = clampInt val0 0 (st_quantMax st)
         in if st_quantMax st = 0 then Inl ErrDivideByZero
            else Inr (step L (st\<lparr> st_quantValue := val,
                                   st_gatePercent := go_div (wrap64 (val * 100)) (st_quantMax st) \<rparr>)
                        [valueEvent EventQuantize (st_tick st) val] next))"

definition caseK :: "string \<Rightarrow> 'f trackLocals \<Rightarrow> perror + 'f trackLocals" where
  "caseK s L =
    (let st = pt_st L; i = pt_i L in
     if i + 1 < length s \<and> lower (s ! (i + 1)) = CHR ''t'' then
       (case parseSignedNumberDefault s (i + 2) (st_transpose st) of
          Inl e \<Rightarrow> Inl e
        | Inr (val, next) \<Rightarrow>
            Inr (step L (st\<lparr> st_transpose := val \<rparr>)
                   [valueEvent EventTranspose (st_tick st) val] next))
     else
       (case parseSignedNumberDefault s (i + 1) (st_detune st) of
          Inl e \<Rightarrow> Inl e
        | Inr (val, next) \<Rightarrow>
            Inr (step L (st\<lparr> st_detune := val \<rparr>)
                   [valueEvent EventDetune (st_tick st) val] next)))"

definition caseP :: "string \<Rightarrow> 'f trackLocals \<Rightarrow> perror + 'f trackLocals" where
  "caseP s L =
    (let st = pt_st L; i = pt_i L in
     if i + 1 < length s \<and> lower (s ! (i + 1)) = CHR ''o'' then
       (case parseSignedNumberDefault s (i + 2) 0 of
          Inl e \<Rightarrow> Inl e
        | Inr (val, next) \<Rightarrow> Inr (step L st [controlEvent (st_tick st) ''po'' val] next))
     else
       (case parseSignedNumberDefault s (i + 1) (st_pan st) of
          Inl e \<Rightarrow> Inl e
        | Inr (val, next) \<Rightarrow>
            Inr (step L (st\<lparr> st_pan := normalizePanValue val \<rparr>)
                   [valueEvent EventPan (st_tick st) (normalizePanValue val)] next)))"

text \<open>An optional second argument after a comma, read with \<^verbatim>\<open>parseNumberDefault\<close>.\<close>

definition optionalComma :: "string \<Rightarrow> nat \<Rightarrow> perror + (int option \<times> nat)" where
  "optionalComma s next =
    (if next < length s \<and> s ! next = CHR '','' then
       (case parseNumberDefault s (next + 1) 0 of
          Inl e \<Rightarrow> Inl e
        | Inr (v, n2) \<Rightarrow> Inr (Some v, n2))
     else Inr (None, next))"

definition casePercent :: "string \<Rightarrow> 'f trackLocals \<Rightarrow> perror + 'f trackLocals" where
  "casePercent s L =
    (let st = pt_st L; i = pt_i L in
     if i + 1 < length s \<and> (lower (s ! (i + 1)) = CHR ''f'' \<or> lower (s ! (i + 1)) = CHR ''t''
                             \<or> lower (s ! (i + 1)) = CHR ''e'') then
       (case parseSignedNumberDefault s (i + 2) 0 of
          Inl e \<Rightarrow> Inl e
        | Inr (val, next0) \<Rightarrow>
            (case commaArgsSigned s next0 [val] of
               Inl e \<Rightarrow> Inl e
             | Inr (vals, next) \<Rightarrow>
                 Inr (step L st
                        [(controlEvent (st_tick st) [CHR ''%'', lower (s ! (i + 1))] val)
                           \<lparr> ev_Values := vals \<rparr>] next)))
     else if i + 1 < length s \<and> (lower (s ! (i + 1)) = CHR ''v'' \<or> lower (s ! (i + 1)) = CHR ''x'') then
       (case parseNumberDefault s (i + 2) 0 of
          Inl e \<Rightarrow> Inl e
        | Inr (val, next0) \<Rightarrow>
            if lower (s ! (i + 1)) = CHR ''v'' then
              (case optionalComma s next0 of
                 Inl e \<Rightarrow> Inl e
               | Inr (mvo, next) \<Rightarrow>
                   let mx0 = (case mvo of
                                None \<Rightarrow> st_vScaleMax st
                              | Some mv \<Rightarrow> if mv > 0 then shiftRight 256 mv else st_vScaleMax st);
                       mx = (if mx0 \<le> 0 then 16 else mx0)
                   in Inr (step L (st\<lparr> st_vScaleMode := val, st_vScaleMax := mx \<rparr>)
                             [(controlEvent (st_tick st) ''%v'' val)\<lparr> ev_Values := [val, mx] \<rparr>]
                             next))
            else
              Inr (step L (st\<lparr> st_xScaleMode := val \<rparr>)
                     [(controlEvent (st_tick st) ''%x'' val)\<lparr> ev_Values := [val] \<rparr>] next0))
     else
       (case parseNumberDefault s (i + 1) (st_module st) of
          Inl e \<Rightarrow> Inl e
        | Inr (md, next0) \<Rightarrow>
            (case optionalComma s next0 of
               Inl e \<Rightarrow> Inl e
             | Inr (cho, next) \<Rightarrow>
                 let chn = (case cho of None \<Rightarrow> 0 | Some chv \<Rightarrow> chv)
                 in Inr (step L (st\<lparr> st_module := md, st_channel := chn \<rparr>)
                           [(newEvent EventModule (st_tick st))
                              \<lparr> ev_Module := md, ev_Channel := chn \<rparr>] next))))"

definition slurEvent :: "int \<Rightarrow> SlurMode \<Rightarrow> Event" where
  "slurEvent tick m = (newEvent EventSlur tick)\<lparr> ev_Slur := m \<rparr>"

definition caseAmpersand :: "string \<Rightarrow> 'f trackLocals \<Rightarrow> perror + 'f trackLocals" where
  "caseAmpersand s L =
    (let st = pt_st L; i = pt_i L in
     if i + 1 < length s \<and> s ! (i + 1) = CHR ''&'' then
       Inr (step L (st\<lparr> st_slurMode := SlurWeak \<rparr>) [slurEvent (st_tick st) SlurWeak] (i + 2))
     else
       Inr (step L (st\<lparr> st_slurMode := SlurNormal \<rparr>) [slurEvent (st_tick st) SlurNormal] (i + 1)))"

definition caseS :: "string \<Rightarrow> 'f trackLocals \<Rightarrow> perror + 'f trackLocals" where
  "caseS s L =
    (let st = pt_st L; i = pt_i L in
     case parseSignedNumberDefault s (i + 1) 0 of
       Inl e \<Rightarrow> Inl e
     | Inr (val, next0) \<Rightarrow>
         if next0 < length s \<and> s ! next0 = CHR '','' then
           (case parseSignedNumberDefault s (next0 + 1) 0 of
              Inl e \<Rightarrow> Inl e
            | Inr (v2, n2) \<Rightarrow>
                Inr (step L st [(controlEvent (st_tick st) ''s'' val)\<lparr> ev_Values := [val, v2] \<rparr>] n2))
         else
           Inr (step L st [(controlEvent (st_tick st) ''s'' val)\<lparr> ev_Values := [val] \<rparr>] next0))"

definition caseParen :: "string \<Rightarrow> 'f trackLocals \<Rightarrow> perror + 'f trackLocals" where
  "caseParen s L =
    (let st = pt_st L; i = pt_i L in
     case parseNumberDefault s (i + 1) 1 of
       Inl e \<Rightarrow> Inl e
     | Inr (shift, next) \<Rightarrow>
         let up0 = (lower (s ! i) = CHR ''('');
             up = (if st_revVolume st then \<not> up0 else up0);
             vol = clampInt (if up then wrap64 (st_volume st + shift)
                             else wrap64 (st_volume st - shift)) 0 127
         in Inr (step L (st\<lparr> st_volume := vol \<rparr>) [valueEvent EventVolume (st_tick st) vol] next))"

definition caseAtV :: "string \<Rightarrow> 'f trackLocals \<Rightarrow> perror + 'f trackLocals" where
  "caseAtV s L =
    (let st = pt_st L; i = pt_i L in
     case parseNumberDefault s (i + 2) (st_fineVol st) of
       Inl e \<Rightarrow> Inl e
     | Inr (val, next0) \<Rightarrow>
         (case commaArgs s next0 [val] of
            Inl e \<Rightarrow> Inl e
          | Inr (vals, next) \<Rightarrow>
              Inr (step L (st\<lparr> st_fineVol := val \<rparr>)
                     [(valueEvent EventFineVolume (st_tick st) val)\<lparr> ev_Values := vals \<rparr>] next)))"

definition caseAtQ :: "string \<Rightarrow> 'f trackLocals \<Rightarrow> perror + 'f trackLocals" where
  "caseAtQ s L =
    (let st = pt_st L; i = pt_i L in
     case parseNumberDefault s (i + 2) (st_keyOffTick st) of
       Inl e \<Rightarrow> Inl e
     | Inr (off, next0) \<Rightarrow>
         (case optionalComma s next0 of
            Inl e \<Rightarrow> Inl e
          | Inr (dlo, next) \<Rightarrow>
              let c = convertQuarter192ToTicks off (st_resolution st);
                  keyOff = (if c \<le> 0 then - 1 else c);
                  keyOn = (case dlo of
                             None \<Rightarrow> 0
                           | Some dl \<Rightarrow> convertQuarter192ToTicks dl (st_resolution st))
              in Inr (step L (st\<lparr> st_keyOffTick := keyOff, st_keyOnDelay := keyOn \<rparr>)
                        [(newEvent EventKeyOnDelay (st_tick st))
                           \<lparr> ev_GateTick := keyOff, ev_Delay := keyOn \<rparr>] next)))"

definition caseAtP :: "string \<Rightarrow> 'f trackLocals \<Rightarrow> perror + 'f trackLocals" where
  "caseAtP s L =
    (let st = pt_st L; i = pt_i L in
     case parseSignedNumberDefault s (i + 2) (st_pan st) of
       Inl e \<Rightarrow> Inl e
     | Inr (val, next) \<Rightarrow>
         Inr (step L (st\<lparr> st_pan := normalizePanValue val \<rparr>)
                [valueEvent EventPan (st_tick st) (normalizePanValue val)] next))"

definition caseAtMask :: "string \<Rightarrow> 'f trackLocals \<Rightarrow> perror + 'f trackLocals" where
  "caseAtMask s L =
    (let st = pt_st L; i = pt_i L in
     case parseNumberDefault s (i + 5) 0 of
       Inl e \<Rightarrow> Inl e
     | Inr (val, next) \<Rightarrow>
         Inr (step L st [controlEvent (st_tick st) ''@mask'' (clampInt val 0 63)] next))"

definition caseAtName :: "string \<Rightarrow> 'f trackLocals \<Rightarrow> perror + 'f trackLocals" where
  "caseAtName s L =
    (let st = pt_st L; i = pt_i L;
         cmdStart = i + 1;
         cmdEnd = cmdStart + length (takeWhile (\<lambda>c. isAlpha (lower c)) (drop cmdStart s));
         cmd = toLower (slice s cmdStart cmdEnd);
         (first, tailStart) =
           (if cmdEnd < length s then
              (case parseSignedNumberDefault s cmdEnd 0 of
                 Inl e \<Rightarrow> (0, cmdEnd)
               | Inr (v, n2) \<Rightarrow> (v, n2))
            else (0, cmdEnd));
         next = skipTail s tailStart
     in Inr (step L st
               [(controlEvent (st_tick st) (CHR ''@'' # cmd) first)
                  \<lparr> ev_Text := trimSpace (slice s tailStart next) \<rparr>] next))"

definition caseAtProgram :: "string \<Rightarrow> 'f trackLocals \<Rightarrow> perror + 'f trackLocals" where
  "caseAtProgram s L =
    (let st = pt_st L; i = pt_i L in
     case parseNumberDefault s (i + 1) (st_program st) of
       Inl e \<Rightarrow> Inl e
     | Inr (val, next0) \<Rightarrow>
         (case commaArgsProgram s next0 [] of
            (args, next) \<Rightarrow>
              Inr (step L (st\<lparr> st_program := val \<rparr>)
                     [(valueEvent EventProgram (st_tick st) val)\<lparr> ev_Values := args \<rparr>] next)))"

definition caseAt :: "string \<Rightarrow> 'f trackLocals \<Rightarrow> perror + 'f trackLocals" where
  "caseAt s L =
    (let i = pt_i L in
     if i + 1 < length s \<and> lower (s ! (i + 1)) = CHR ''v'' then caseAtV s L
     else if i + 1 < length s \<and> lower (s ! (i + 1)) = CHR ''q'' then caseAtQ s L
     else if startsWithWord s i ''@p'' then caseAtP s L
     else if startsWithWord s i ''@mask'' then caseAtMask s L
     else if i + 1 < length s \<and> isAlpha (lower (s ! (i + 1))) then caseAtName s L
     else caseAtProgram s L)"

definition caseDollar :: "'f trackLocals \<Rightarrow> perror + 'f trackLocals" where
  "caseDollar L =
    Inr (L\<lparr> pt_loopTick := st_tick (pt_st L), pt_loopIndex := int (length (pt_events L)),
              pt_i := pt_i L + 1 \<rparr>)"

definition isTableWord :: "string \<Rightarrow> nat \<Rightarrow> bool" where
  "isTableWord s i =
    (startsWithWord s i ''na'' \<or> startsWithWord s i ''np'' \<or> startsWithWord s i ''nt''
     \<or> startsWithWord s i ''nf'' \<or> startsWithWord s i ''_na'' \<or> startsWithWord s i ''_np''
     \<or> startsWithWord s i ''_nt'' \<or> startsWithWord s i ''_nf'' \<or> startsWithWord s i ''@@''
     \<or> startsWithWord s i ''_@@'')"

definition caseDefault :: "string \<Rightarrow> 'f trackLocals \<Rightarrow> perror + 'f trackLocals" where
  "caseDefault s L =
    (let st = pt_st L; i = pt_i L; ch = lower (s ! i) in
     if startsWithWord s i ''kt'' then
       (case parseSignedNumberDefault s (i + 2) (st_transpose st) of
          Inl e \<Rightarrow> Inl e
        | Inr (val, next) \<Rightarrow>
            Inr (step L (st\<lparr> st_transpose := val \<rparr>)
                   [valueEvent EventTranspose (st_tick st) val] next))
     else if startsWithWord s i ''po'' \<or> ch = CHR ''*'' then
       (let cmd = (if startsWithWord s i ''po'' then ''po'' else [ch]);
            adv = (if startsWithWord s i ''po'' then i + 2 else i + 1)
        in case parseSignedNumberDefault s adv 0 of
             Inl e \<Rightarrow> Inl e
           | Inr (val, next) \<Rightarrow> Inr (step L st [controlEvent (st_tick st) cmd val] next))
     else if startsWithWord s i ''mp'' \<or> startsWithWord s i ''ma'' \<or> startsWithWord s i ''mf'' then
       (case parseSignedNumberDefault s (i + 2) 0 of
          Inl e \<Rightarrow> Inl e
        | Inr (val, tailStart) \<Rightarrow>
            let next = skipTail s tailStart
            in Inr (step L st
                      [(controlEvent (st_tick st) (toLower (slice s i (i + 2))) val)
                         \<lparr> ev_Text := trimSpace (slice s tailStart next) \<rparr>] next))
     else if isTableWord s i then
       (let (cmd, next) = parseWordToken s i;
            (val, n2) = (case parseSignedNumberDefault s next 0 of
                           Inl e \<Rightarrow> (0, next)
                         | Inr r \<Rightarrow> r);
            (stepo, n3) =
              (if n2 < length s \<and> s ! n2 = CHR '','' then
                 (case parseNumberDefault s (n2 + 1) 1 of
                    Inl e \<Rightarrow> (Some 0, n2 + 1)
                  | Inr (v2, k) \<Rightarrow> (Some v2, k))
               else (None, n2))
        in Inr (step L st
                  [(newEvent EventTableEnv (st_tick st))
                     \<lparr> ev_Command := cmd, ev_Value := val,
                       ev_Delay := (case stepo of None \<Rightarrow> 1 | Some v2 \<Rightarrow> v2),
                       ev_Values := (case stepo of None \<Rightarrow> [val] | Some v2 \<Rightarrow> [val, v2]) \<rparr>]
                  n3))
     else Inr (L\<lparr> pt_i := i + 1 \<rparr>))"

definition parseCommand ::
  "'f float_ops \<Rightarrow> 'f ParserConfig \<Rightarrow> parserOptions \<Rightarrow> string \<Rightarrow> 'f trackLocals
   \<Rightarrow> perror + 'f trackLocals" where
  "parseCommand fl cfg opts s L =
    (let i = pt_i L; ch = lower (s ! i) in
     if isSpace ch then Inr (L\<lparr> pt_i := i + 1 \<rparr>)
     else if ch = CHR ''n'' \<and> i + 1 < length s \<and> isDigit (s ! (i + 1)) then caseNoteNumber fl s L
     else if isNote ch then caseNote fl s L
     else if ch = CHR ''r'' then caseRest s L
     else if ch = CHR ''l'' then caseLength s L
     else if ch = CHR ''t'' then caseTempo fl opts s L
     else if ch = CHR ''o'' then caseOctave cfg s L
     else if hasPrefix (drop i s) guillemetLeft then caseGuillemetLeft cfg L
     else if hasPrefix (drop i s) guillemetRight then caseGuillemetRight cfg L
     else if ch = CHR ''<'' then caseLess cfg s L
     else if ch = CHR ''>'' then caseGreater cfg s L
     else if ch = CHR ''v'' then caseVolume s L
     else if ch = CHR ''x'' then caseExpression s L
     else if ch = CHR ''q'' then caseQuantize s L
     else if ch = CHR ''k'' then caseK s L
     else if ch = CHR ''p'' then caseP s L
     else if ch = CHR ''%'' then casePercent s L
     else if ch = CHR ''&'' then caseAmpersand s L
     else if ch = CHR ''s'' then caseS s L
     else if ch = CHR ''('' \<or> ch = CHR '')'' then caseParen s L
     else if ch = CHR ''@'' then caseAt s L
     else if ch = CHR ''$'' then caseDollar L
     else caseDefault s L)"

text \<open>Every case of the switch moves the read position forward.\<close>

lemma step_i [simp]: "pt_i (step L st evs n) = n"
  by (simp add: step_def)

lemma skipTail_ge: "n \<le> skipTail s n"
  by (simp add: skipTail_def)

lemma skipTail_gt: "i < n \<Longrightarrow> i < skipTail s n"
  by (simp add: skipTail_def)

lemma optionalComma_next: "optionalComma s k = Inr (v, n) \<Longrightarrow> k \<le> n"
  by (auto simp: optionalComma_def split: if_splits sum.splits dest!: parseNumberDefault_next)

lemma startsWithWord_hd:
  assumes "startsWithWord s i (w # ws)"
  shows "i < length s \<and> lower (s ! i) = lower w"
proof -
  from assms have len: "i < length s" by (simp add: startsWithWord_def)
  have "slice s i (i + length (w # ws)) = s ! i # take (length ws) (drop (Suc i) s)"
    using len by (simp add: slice_def Cons_nth_drop_Suc[symmetric])
  with assms have "lower (s ! i) # map lower (take (length ws) (drop (Suc i) s)) = lower w # map lower ws"
    by (simp add: startsWithWord_def)
  with len show ?thesis by simp
qed

lemma lower_isWordByte: "lower c = w \<Longrightarrow> isWordByte w \<Longrightarrow> isWordByte c"
  by (cases "isUpper c") (auto simp: lower_def isWordByte_def)

lemma isWordByte_n: "isWordByte (CHR ''n'')" "isWordByte (CHR ''_'')" "isWordByte (CHR ''@'')"
  by (simp_all add: isWordByte_def isLowerLetter_def isUpper_def byte_def)

lemma lower_n: "lower (CHR ''n'') = CHR ''n''" "lower (CHR ''_'') = CHR ''_''"
  "lower (CHR ''@'') = CHR ''@''"
  by (simp_all add: lower_def isUpper_def byte_def)

lemma isTableWord_hd: "isTableWord s i \<Longrightarrow> i < length s \<and> isWordByte (s ! i)"
  unfolding isTableWord_def
  by (auto dest!: startsWithWord_hd simp: lower_n intro: lower_isWordByte isWordByte_n)

lemma parseWordToken_next:
  assumes "i < length s" "isWordByte (s ! i)" "parseWordToken s i = (w, n)"
  shows "i < n"
proof -
  have "drop i s = s ! i # drop (Suc i) s"
    using assms(1) by (simp add: Cons_nth_drop_Suc)
  hence "takeWhile isWordByte (drop i s) \<noteq> []" using assms(2) by simp
  hence "0 < length (takeWhile isWordByte (drop i s))" by simp
  with assms(3) show ?thesis by (auto simp: parseWordToken_def Let_def)
qed

lemma caseNoteNumber_next: "caseNoteNumber fl s L = Inr L' \<Longrightarrow> pt_i L < pt_i L'"
  by (auto simp: caseNoteNumber_def Let_def split: sum.splits dest!: parseNoteByNumber_next)

lemma caseNote_next: "caseNote fl s L = Inr L' \<Longrightarrow> pt_i L < pt_i L'"
  by (auto simp: caseNote_def Let_def split: sum.splits dest!: parseNote_next)

lemma caseRest_next: "caseRest s L = Inr L' \<Longrightarrow> pt_i L < pt_i L'"
  by (auto simp: caseRest_def Let_def split: sum.splits dest!: parseLengthWithTie_next)

lemma caseLength_next: "caseLength s L = Inr L' \<Longrightarrow> pt_i L < pt_i L'"
  by (auto simp: caseLength_def Let_def split: sum.splits dest!: parseLengthToken_next)

lemma caseTempo_next: "caseTempo fl opts s L = Inr L' \<Longrightarrow> pt_i L < pt_i L'"
  by (auto simp: caseTempo_def Let_def split: sum.splits dest!: parseNumberDefault_next)

lemma caseOctave_next: "caseOctave cfg s L = Inr L' \<Longrightarrow> pt_i L < pt_i L'"
  by (auto simp: caseOctave_def Let_def split: sum.splits if_splits dest!: parseNumberDefault_next)

lemma caseGuillemet_next:
  "caseGuillemetLeft cfg L = Inr L' \<Longrightarrow> pt_i L < pt_i L'"
  "caseGuillemetRight cfg L = Inr L' \<Longrightarrow> pt_i L < pt_i L'"
  by (auto simp: caseGuillemetLeft_def caseGuillemetRight_def guillemetLeft_def guillemetRight_def)

lemma caseLess_next: "caseLess cfg s L = Inr L' \<Longrightarrow> pt_i L < pt_i L'"
  by (auto simp: caseLess_def split: sum.splits dest!: parseNumberDefault_next)

lemma caseGreater_next: "caseGreater cfg s L = Inr L' \<Longrightarrow> pt_i L < pt_i L'"
  by (auto simp: caseGreater_def split: sum.splits dest!: parseNumberDefault_next)

lemma caseVolume_next: "caseVolume s L = Inr L' \<Longrightarrow> pt_i L < pt_i L'"
  by (auto simp: caseVolume_def Let_def split: sum.splits dest!: parseNumberDefault_next)

lemma caseExpression_next: "caseExpression s L = Inr L' \<Longrightarrow> pt_i L < pt_i L'"
  by (auto simp: caseExpression_def Let_def split: sum.splits dest!: parseNumberDefault_next)

lemma caseQuantize_next: "caseQuantize s L = Inr L' \<Longrightarrow> pt_i L < pt_i L'"
  by (auto simp: caseQuantize_def Let_def split: sum.splits if_splits dest!: parseNumberDefault_next)

lemma caseK_next: "caseK s L = Inr L' \<Longrightarrow> pt_i L < pt_i L'"
  by (auto simp: caseK_def Let_def split: sum.splits if_splits dest!: parseSignedNumberDefault_next)

lemma caseP_next: "caseP s L = Inr L' \<Longrightarrow> pt_i L < pt_i L'"
  by (auto simp: caseP_def Let_def split: sum.splits if_splits dest!: parseSignedNumberDefault_next)

lemma casePercent_next: "casePercent s L = Inr L' \<Longrightarrow> pt_i L < pt_i L'"
  unfolding casePercent_def Let_def
  by (auto split: sum.splits if_splits option.splits
           dest!: parseSignedNumberDefault_next parseNumberDefault_next commaArgsSigned_next
                  optionalComma_next)

lemma caseAmpersand_next: "caseAmpersand s L = Inr L' \<Longrightarrow> pt_i L < pt_i L'"
  by (auto simp: caseAmpersand_def Let_def split: if_splits)

lemma caseS_next: "caseS s L = Inr L' \<Longrightarrow> pt_i L < pt_i L'"
  by (auto simp: caseS_def Let_def split: sum.splits if_splits dest!: parseSignedNumberDefault_next)

lemma caseParen_next: "caseParen s L = Inr L' \<Longrightarrow> pt_i L < pt_i L'"
  by (auto simp: caseParen_def Let_def split: sum.splits dest!: parseNumberDefault_next)

lemma caseAtV_next: "caseAtV s L = Inr L' \<Longrightarrow> pt_i L < pt_i L'"
  by (auto simp: caseAtV_def Let_def split: sum.splits
           dest!: parseNumberDefault_next commaArgs_next)

lemma caseAtQ_next: "caseAtQ s L = Inr L' \<Longrightarrow> pt_i L < pt_i L'"
  by (auto simp: caseAtQ_def Let_def split: sum.splits
           dest!: parseNumberDefault_next optionalComma_next)

lemma caseAtP_next: "caseAtP s L = Inr L' \<Longrightarrow> pt_i L < pt_i L'"
  by (auto simp: caseAtP_def Let_def split: sum.splits dest!: parseSignedNumberDefault_next)

lemma caseAtMask_next: "caseAtMask s L = Inr L' \<Longrightarrow> pt_i L < pt_i L'"
  by (auto simp: caseAtMask_def Let_def split: sum.splits dest!: parseNumberDefault_next)

lemma caseAtName_next: "caseAtName s L = Inr L' \<Longrightarrow> pt_i L < pt_i L'"
  by (auto simp: caseAtName_def Let_def skipTail_gt split: sum.splits if_splits prod.splits
           dest!: parseSignedNumberDefault_next)

lemma caseAtProgram_next: "caseAtProgram s L = Inr L' \<Longrightarrow> pt_i L < pt_i L'"
  by (auto simp: caseAtProgram_def Let_def split: sum.splits prod.splits
           dest!: parseNumberDefault_next commaArgsProgram_next)

lemma caseAt_next: "caseAt s L = Inr L' \<Longrightarrow> pt_i L < pt_i L'"
  unfolding caseAt_def Let_def
  by (auto split: if_splits
           dest: caseAtV_next caseAtQ_next caseAtP_next caseAtMask_next caseAtName_next
                 caseAtProgram_next)

lemma caseDollar_next: "caseDollar L = Inr L' \<Longrightarrow> pt_i L < pt_i L'"
  by (auto simp: caseDollar_def)

lemma caseDefault_next: "caseDefault s L = Inr L' \<Longrightarrow> pt_i L < pt_i L'"
proof (cases "isTableWord s (pt_i L)")
  case False
  assume "caseDefault s L = Inr L'"
  with False show ?thesis
    unfolding caseDefault_def Let_def
    by (auto split: sum.splits if_splits
             dest!: parseSignedNumberDefault_next
             simp: skipTail_gt)
next
  case True
  assume a: "caseDefault s L = Inr L'"
  obtain w n where w: "parseWordToken s (pt_i L) = (w, n)" by (cases "parseWordToken s (pt_i L)")
  from isTableWord_hd[OF True] w have n: "pt_i L < n" by (auto dest: parseWordToken_next)
  from a True w n show ?thesis
    unfolding caseDefault_def Let_def
    by (auto split: sum.splits if_splits prod.splits
             dest!: parseSignedNumberDefault_next parseNumberDefault_next
             simp: skipTail_gt)
qed

lemma parseCommand_next: "parseCommand fl cfg opts s L = Inr L' \<Longrightarrow> pt_i L < pt_i L'"
  unfolding parseCommand_def Let_def
  by (auto split: if_splits
           dest: caseNoteNumber_next caseNote_next caseRest_next caseLength_next caseTempo_next
                 caseOctave_next caseGuillemet_next caseLess_next caseGreater_next
                 caseVolume_next caseExpression_next caseQuantize_next caseK_next caseP_next
                 casePercent_next caseAmpersand_next caseS_next caseParen_next caseAt_next
                 caseDollar_next caseDefault_next)

function parseLoop ::
  "'f float_ops \<Rightarrow> 'f ParserConfig \<Rightarrow> parserOptions \<Rightarrow> string \<Rightarrow> 'f trackLocals
   \<Rightarrow> perror + 'f trackLocals" where
  "parseLoop fl cfg opts s L =
    (if pt_i L < length s then
       (case parseCommand fl cfg opts s L of
          Inl e \<Rightarrow> Inl e
        | Inr L' \<Rightarrow> parseLoop fl cfg opts s L')
     else Inr L)"
  by pat_completeness auto
termination
  by (relation "measure (\<lambda>(fl, cfg, opts, s, L). length s - pt_i L)")
     (auto dest!: parseCommand_next)

declare parseLoop.simps [simp del]

definition parseTrack ::
  "'f float_ops \<Rightarrow> 'f ParserConfig \<Rightarrow> string \<Rightarrow> parserOptions \<Rightarrow> (string \<rightharpoonup> string)
   \<Rightarrow> perror + (Track \<times> 'f)" where
  "parseTrack fl cfg input opts defs =
    (case expandLoops input of
       Inl e \<Rightarrow> Inl e
     | Inr expanded \<Rightarrow>
         (case newState cfg opts defs of
            Inl e \<Rightarrow> Inl e
          | Inr st \<Rightarrow>
              (case parseLoop fl cfg opts expanded
                      \<lparr> pt_i = 0, pt_st = st, pt_events = [], pt_loopTick = - 1,
                        pt_loopIndex = - 1 \<rparr> of
                 Inl e \<Rightarrow> Inl e
               | Inr L \<Rightarrow>
                   Inr (\<lparr> tr_Events = pt_events L, tr_EndTick = st_tick (pt_st L),
                          tr_LoopTick = pt_loopTick L, tr_LoopIndex = pt_loopIndex L \<rparr>,
                        st_bpm (pt_st L)))))"

section \<open>The preprocessor\<close>

subsection \<open>Comments\<close>

text \<open>
  \<open>skipBlock\<close> is the inner loop of a block comment: the text after the closing
  \<^verbatim>\<open>*/\<close>, or nothing when the comment is not closed.  A line comment keeps its newline.
\<close>

fun skipBlock :: "string \<Rightarrow> string" where
  "skipBlock (a # b # cs) = (if a = CHR ''*'' \<and> b = CHR ''/'' then cs else skipBlock (b # cs))"
| "skipBlock [a] = []"
| "skipBlock [] = []"

lemma skipBlock_length: "length (skipBlock cs) \<le> length cs"
  by (induction cs rule: skipBlock.induct) auto

function stripComments :: "string \<Rightarrow> string" where
  "stripComments [] = []"
| "stripComments [c] = [c]"
| "stripComments (a # b # cs) =
    (if a = CHR ''/'' \<and> b = CHR ''*'' then stripComments (skipBlock cs)
     else if a = CHR ''/'' \<and> b = CHR ''/'' then
       (case dropWhile (\<lambda>c. c \<noteq> CHR 0x0A) cs of
          [] \<Rightarrow> []
        | n # rest \<Rightarrow> CHR 0x0A # stripComments rest)
     else a # stripComments (b # cs))"
  by pat_completeness auto
termination
proof (relation "measure length")
  fix a b :: char and cs n rest
  assume "dropWhile (\<lambda>c. c \<noteq> CHR 0x0A) cs = n # rest"
  moreover have "length (dropWhile (\<lambda>c. c \<noteq> CHR 0x0A) cs) \<le> length cs"
    by (rule length_dropWhile_le)
  ultimately show "(rest, a # b # cs) \<in> measure length" by simp
next
  fix a b :: char and cs
  show "(skipBlock cs, a # b # cs) \<in> measure length"
    using skipBlock_length[of cs] by simp
qed auto

subsection \<open>Macros\<close>

record preprocessorState =
  pp_macros :: "string \<rightharpoonup> string"
  pp_definitions :: "string \<rightharpoonup> string"
  pp_macroDynamic :: bool
  pp_revOctave :: bool
  pp_revVolume :: bool

definition parseOptionalSignedParen :: "string \<Rightarrow> nat \<Rightarrow> int \<times> nat" where
  "parseOptionalSignedParen src pos =
    (if pos \<ge> length src \<or> src ! pos \<noteq> CHR ''('' then (0, pos)
     else
       let i0 = pos + 1;
           sign = (if i0 < length src \<and> src ! i0 = CHR ''-'' then - 1 else 1);
           startDigits = (if i0 < length src \<and> (src ! i0 = CHR ''+'' \<or> src ! i0 = CHR ''-'')
                          then i0 + 1 else i0);
           i = scanDigits src startDigits
       in if startDigits = i \<or> i \<ge> length src \<or> src ! i \<noteq> CHR '')'' then (0, pos)
          else (case atoi (slice src startDigits i) of
                  None \<Rightarrow> (0, pos)
                | Some v \<Rightarrow> (sign * v, i + 1)))"

lemma parseOptionalSignedParen_next: "parseOptionalSignedParen src pos = (v, n) \<Longrightarrow> pos \<le> n"
proof -
  assume a: "parseOptionalSignedParen src pos = (v, n)"
  have "pos \<le> scanDigits src (pos + 1)" "pos \<le> scanDigits src (pos + 1 + 1)"
    using scanDigits_ge[of "pos + 1" src] scanDigits_ge[of "pos + 1 + 1" src] by simp_all
  with a show ?thesis
    by (auto simp: parseOptionalSignedParen_def Let_def split: if_splits option.splits)
qed

definition noteNameForSemitone :: "int \<Rightarrow> string" where
  "noteNameForSemitone n =
    (if n = 0 then ''c'' else if n = 1 then ''c+'' else if n = 2 then ''d''
     else if n = 3 then ''d+'' else if n = 4 then ''e'' else if n = 5 then ''f''
     else if n = 6 then ''f+'' else if n = 7 then ''g'' else if n = 8 then ''g+''
     else if n = 9 then ''a'' else if n = 10 then ''a+'' else ''b'')"

definition swapOctaveMarkers :: "string \<Rightarrow> string" where
  "swapOctaveMarkers src =
    map (\<lambda>c. if c = CHR ''<'' then CHR ''>'' else if c = CHR ''>'' then CHR ''<'' else c) src"

text \<open>
  Transposing a macro body: a running octave, set by \<^verbatim>\<open>o\<close> and moved by \<^verbatim>\<open><\<close> and
  \<^verbatim>\<open>>\<close>; every note is re-emitted by name, \<open>semitone\<close> higher.
\<close>

function transposeLoop :: "string \<Rightarrow> int \<Rightarrow> nat \<Rightarrow> int \<Rightarrow> string" where
  "transposeLoop src semitone i currentOctave =
    (if i < length src then
       (let ch = src ! i; lo = lower ch in
        if lo = CHR ''o'' then
          (case parseNumberOptional src (i + 1) of
             Inr (val, next) \<Rightarrow>
               if val \<ge> 0 then ch # slice src (i + 1) next @ transposeLoop src semitone next val
               else ch # transposeLoop src semitone (i + 1) currentOctave
           | Inl e \<Rightarrow> ch # transposeLoop src semitone (i + 1) currentOctave)
        else if lo = CHR ''<'' \<or> lo = CHR ''>'' then
          (let (delta, next) = (case parseNumberDefault src (i + 1) 1 of
                                  Inl e \<Rightarrow> (1, i + 1)
                                | Inr r \<Rightarrow> r);
               oct = (if lo = CHR ''<'' then wrap64 (currentOctave + delta)
                      else wrap64 (currentOctave - delta))
           in ch # slice src (i + 1) next @ transposeLoop src semitone next oct)
        else if \<not> isNote lo then ch # transposeLoop src semitone (i + 1) currentOctave
        else
          (let base = lookupInt noteOffsets lo;
               (shift, n) = scanAccidentals (drop (i + 1) src);
               a = wrap64 (currentOctave * 12 + base + shift + semitone);
               newOct = (if go_rem a 12 < 0 then go_div a 12 - 1 else go_div a 12);
               newNote = (if go_rem a 12 < 0 then go_rem a 12 + 12 else go_rem a 12)
           in noteNameForSemitone newNote @ transposeLoop src semitone (i + 1 + n) newOct))
     else [])"
  by pat_completeness auto
termination
  by (relation "measure (\<lambda>(src, semitone, i, oct). length src - i)")
     (auto dest!: parseNumberOptional_next parseNumberDefault_next split: sum.splits)

declare transposeLoop.simps [simp del]

definition transposeNotes :: "string \<Rightarrow> int \<Rightarrow> string" where
  "transposeNotes src semitone = transposeLoop src semitone 0 5"

text \<open>
  Macro expansion.  \<open>expandMacroTextLoop\<close> is the loop of \<^verbatim>\<open>expandMacroText\<close> from
  index \<open>i\<close> on.  In dynamic mode the body of a macro is expanded when the macro is
  invoked; the depth of nested invocations is limited to 32.
\<close>

function expandMacroByName :: "string \<Rightarrow> int \<Rightarrow> preprocessorState \<Rightarrow> nat \<Rightarrow> string"
  and expandMacroText :: "string \<Rightarrow> preprocessorState \<Rightarrow> nat \<Rightarrow> string"
  and expandMacroTextLoop :: "string \<Rightarrow> preprocessorState \<Rightarrow> nat \<Rightarrow> nat \<Rightarrow> string" where
  "expandMacroByName name shift st depth =
    (if depth > 32 then name
     else (case pp_macros st name of
             None \<Rightarrow> name
           | Some body0 \<Rightarrow>
               let body1 = (if pp_macroDynamic st then expandMacroText body0 st (depth + 1)
                            else body0);
                   body2 = (if shift \<noteq> 0 then transposeNotes body1 shift else body1)
               in if pp_revOctave st then swapOctaveMarkers body2 else body2))"
| "expandMacroText src st depth =
    (if depth > 32 then src else expandMacroTextLoop src st depth 0)"
| "expandMacroTextLoop src st depth i =
    (if i < length src then
       (if isMacroName (src ! i) \<and> pp_macros st [src ! i] \<noteq> None then
          (case parseOptionalSignedParen src (i + 1) of
             (shift, next) \<Rightarrow>
               expandMacroByName [src ! i] shift st (depth + 1)
               @ expandMacroTextLoop src st depth next)
        else src ! i # expandMacroTextLoop src st depth (i + 1))
     else [])"
  by pat_completeness auto
termination
  by (relation "inv_image (less_than <*lex*> less_than)
        (\<lambda>x. case x of
           Inl (name, shift, st, depth) \<Rightarrow> (3 * (34 - depth), 0)
         | Inr (Inl (src, st, depth)) \<Rightarrow> (3 * (34 - depth) + 2, 0)
         | Inr (Inr (src, st, depth, i)) \<Rightarrow> (3 * (34 - depth) + 1, length src - i))")
     (auto dest!: parseOptionalSignedParen_next[OF sym])

declare expandMacroByName.simps [simp del]
declare expandMacroText.simps [simp del]
declare expandMacroTextLoop.simps [simp del]

text \<open>The targets of a macro assignment: letters and ranges of letters, each once.\<close>

definition macroRange :: "char \<Rightarrow> char \<Rightarrow> string list" where
  "macroRange a c =
    (if byte a \<le> byte c then map (\<lambda>k. [char_of k]) [byte a..<byte c + 1]
     else rev (map (\<lambda>k. [char_of k]) [byte c..<byte a + 1]))"

fun addKeys :: "string list \<Rightarrow> string list \<Rightarrow> string list" where
  "addKeys out [] = out"
| "addKeys out (k # ks) = addKeys (if k \<in> set out then out else out @ [k]) ks"

fun macroTargetsLoop :: "string \<Rightarrow> string list \<Rightarrow> string list" where
  "macroTargetsLoop (a # b # c # rest) out =
    (if isMacroName a \<and> b = CHR ''-'' \<and> isMacroName c then
       macroTargetsLoop rest (addKeys out (macroRange a c))
     else if isMacroName a then macroTargetsLoop (b # c # rest) (addKeys out [[a]])
     else macroTargetsLoop (b # c # rest) out)"
| "macroTargetsLoop (a # rest) out =
    (if isMacroName a then macroTargetsLoop rest (addKeys out [[a]])
     else macroTargetsLoop rest out)"
| "macroTargetsLoop [] out = out"

definition parseMacroTargets :: "string \<Rightarrow> string list" where
  "parseMacroTargets spec =
    macroTargetsLoop
      (filter (\<lambda>r. \<not> (r = CHR '' '' \<or> r = CHR 0x09 \<or> r = CHR 0x0D \<or> r = CHR 0x0A)) spec) []"

fun assignMacros :: "bool \<Rightarrow> string \<Rightarrow> string list \<Rightarrow> (string \<rightharpoonup> string) \<Rightarrow> (string \<rightharpoonup> string)" where
  "assignMacros appendMode v [] m = m"
| "assignMacros appendMode v (t # ts) m =
    assignMacros appendMode v ts
      (if appendMode then m(t \<mapsto> lookupStr m t @ v) else m(t \<mapsto> v))"

definition applyMacroDefinition :: "string \<Rightarrow> preprocessorState \<Rightarrow> preprocessorState option" where
  "applyMacroDefinition stmt st =
    (let appendMode = (index stmt ''+='' \<noteq> None);
         opLen = (if appendMode then 2 else 1 :: nat);
         opIdx = (if appendMode then index stmt ''+='' else indexByte stmt CHR ''='')
     in case opIdx of
          None \<Rightarrow> None
        | Some k \<Rightarrow>
            if k = 0 then None
            else
              let targetSpec = trimSpace (take k stmt);
                  v = trimSpace (drop (k + opLen) stmt);
                  targets = parseMacroTargets targetSpec
              in if targets = [] then None
                 else
                   let expandedValue = (if \<not> pp_macroDynamic st then expandMacroText v st 0 else v)
                   in Some (st\<lparr> pp_macros := assignMacros appendMode expandedValue targets
                                                  (pp_macros st) \<rparr>))"

subsection \<open>Directives\<close>

definition parseBraceValue :: "string \<Rightarrow> string" where
  "parseBraceValue s0 =
    (let s = trimSpace s0 in
     if length s < 2 \<or> hd s \<noteq> CHR ''{'' then []
     else (case indexByte s CHR ''}'' of
             None \<Rightarrow> []
           | Some k \<Rightarrow> if k = 0 then [] else slice s 1 k))"

definition isDirectiveNameByte :: "char \<Rightarrow> bool" where
  "isDirectiveNameByte ch = (isUpper ch \<or> isDigit ch \<or> ch = CHR ''@'' \<or> ch = CHR ''_'')"

definition extractDirectiveName :: "string \<Rightarrow> string" where
  "extractDirectiveName s =
    (if takeWhile isDirectiveNameByte s = [] then ''DIRECTIVE''
     else takeWhile isDirectiveNameByte s)"

definition parseKnownDirective :: "string \<Rightarrow> (string \<times> string) option" where
  "parseKnownDirective body =
    (let upper = toUpper (trimSpace body) in
     if hasPrefix upper ''TITLE{'' then Some (''TITLE'', parseBraceValue (drop 5 body))
     else if hasPrefix upper ''SIGN{'' then Some (''SIGN'', parseBraceValue (drop 4 body))
     else if hasPrefix upper ''VMODE{'' then Some (''VMODE'', parseBraceValue (drop 5 body))
     else if hasPrefix upper ''TMODE{'' then Some (''TMODE'', parseBraceValue (drop 5 body))
     else if hasPrefix upper ''FPS'' then Some (''FPS'', trimSpace (drop 3 body))
     else if hasPrefix upper ''QUANT'' then Some (''QUANT'', trimSpace (drop 5 body))
     else if hasPrefix upper ''TABLE'' then Some (extractDirectiveName upper, body)
     else if hasPrefix upper ''WAV'' then Some (extractDirectiveName upper, body)
     else if hasPrefix upper ''OPL@'' \<or> hasPrefix upper ''OPM@'' \<or> hasPrefix upper ''OPN@''
             \<or> hasPrefix upper ''OPX@'' \<or> hasPrefix upper ''MA@'' \<or> hasPrefix upper ''@''
             \<or> hasPrefix upper ''FM{'' \<or> hasPrefix upper ''EFFECT'' \<or> hasPrefix upper ''SAMPLER''
             \<or> hasPrefix upper ''PCMWAVE'' \<or> hasPrefix upper ''PCMVOICE''
       then Some (extractDirectiveName upper, body)
     else None)"

text \<open>
  A directive runs from \<^verbatim>\<open>#\<close> to the next \<^verbatim>\<open>;\<close>.  The result is the new state, the
  index to go on from, and whether \<^verbatim>\<open>#END\<close> stops the scan.
\<close>

definition parseDirective :: "string \<Rightarrow> nat \<Rightarrow> preprocessorState \<Rightarrow> preprocessorState \<times> nat \<times> bool" where
  "parseDirective src pos st =
    (let e = pos + 1 + length (takeWhile (\<lambda>c. c \<noteq> CHR '';'') (drop (pos + 1) src));
         stmtEnd = (if e < length src then e + 1 else e);
         body = trimSpace (slice src (pos + 1) (min e (length src)));
         upperBody = toUpper body
     in if body = [] then (st, stmtEnd, False)
        else if upperBody = ''END'' then
          (st\<lparr> pp_definitions := (pp_definitions st)(''END'' \<mapsto> ''1'') \<rparr>, length src, True)
        else if hasPrefix upperBody ''MACRO{'' then
          (let m = toLower (trimSpace (parseBraceValue (drop 5 body)));
               dyn = (if m = ''dynamic'' then True
                      else if m = ''static'' then False else pp_macroDynamic st)
           in (st\<lparr> pp_macroDynamic := dyn,
                    pp_definitions := (pp_definitions st)(''MACRO_MODE'' \<mapsto> m) \<rparr>, stmtEnd, False))
        else if hasPrefix upperBody ''REV'' then
          (let opts = toLower (trimSpace (parseBraceValue (drop 3 body)))
           in (st\<lparr> pp_revOctave := (if opts = [] \<or> contains opts ''octave'' then True
                                       else pp_revOctave st),
                    pp_revVolume := (if opts = [] \<or> contains opts ''volume'' then True
                                       else pp_revVolume st),
                    pp_definitions := (pp_definitions st)(''REV'' \<mapsto> opts) \<rparr>, stmtEnd, False))
        else (case parseKnownDirective body of
                Some (key, v) \<Rightarrow>
                  (st\<lparr> pp_definitions := (pp_definitions st)(key \<mapsto> v) \<rparr>, stmtEnd, False)
              | None \<Rightarrow>
                  (case applyMacroDefinition body st of
                     Some st' \<Rightarrow> (st', stmtEnd, False)
                   | None \<Rightarrow> (st, stmtEnd, False))))"

lemma parseDirective_next: "parseDirective src pos st = (st', n, stop) \<Longrightarrow> pos < length src \<Longrightarrow> pos < n"
  by (auto simp: parseDirective_def Let_def split: if_splits option.splits prod.splits)

function preprocessLoop :: "string \<Rightarrow> nat \<Rightarrow> preprocessorState \<Rightarrow> string \<Rightarrow> string \<times> preprocessorState" where
  "preprocessLoop src i st out =
    (if i < length src then
       (if src ! i = CHR ''#'' then
          (case parseDirective src i st of
             (st', advance, stopAll) \<Rightarrow>
               if stopAll then (out, st') else preprocessLoop src advance st' out)
        else if isMacroName (src ! i) \<and> pp_macros st [src ! i] \<noteq> None then
          (case parseOptionalSignedParen src (i + 1) of
             (shift, next) \<Rightarrow>
               preprocessLoop src next st (out @ expandMacroByName [src ! i] shift st 0))
        else if pp_revOctave st \<and> src ! i = CHR ''<'' then preprocessLoop src (i + 1) st (out @ ''>'')
        else if pp_revOctave st \<and> src ! i = CHR ''>'' then preprocessLoop src (i + 1) st (out @ ''<'')
        else preprocessLoop src (i + 1) st (out @ [src ! i]))
     else (out, st))"
  by pat_completeness auto
termination
  by (relation "measure (\<lambda>(src, i, st, out). length src - i)")
     (auto dest!: parseDirective_next[OF sym] parseOptionalSignedParen_next[OF sym])

declare preprocessLoop.simps [simp del]

definition preprocessStream :: "string \<Rightarrow> preprocessorState \<Rightarrow> string \<times> preprocessorState" where
  "preprocessStream src st = preprocessLoop src 0 st []"

record preprocessedInput =
  pi_text :: string
  pi_definitions :: "string \<rightharpoonup> string"

definition preprocessInput :: "string \<Rightarrow> preprocessedInput" where
  "preprocessInput src =
    (case preprocessStream (stripComments src)
            \<lparr> pp_macros = Map.empty, pp_definitions = Map.empty, pp_macroDynamic = False,
              pp_revOctave = False, pp_revVolume = False \<rparr> of
       (text, st) \<Rightarrow> \<lparr> pi_text = text, pi_definitions = pp_definitions st \<rparr>)"

section \<open>Parsing a score\<close>

record 'f Score =
  sc_Resolution :: int
  sc_InitialBPM :: 'f
  sc_Tracks :: "Track list"
  sc_Definitions :: "string \<rightharpoonup> string"

text \<open>A comma that is followed, after blanks, by a digit or a sign belongs to an
  argument list and does not separate tracks.\<close>

definition isArgumentComma :: "string \<Rightarrow> nat \<Rightarrow> bool" where
  "isArgumentComma src pos =
    (pos < length src \<and> src ! pos = CHR '','' \<and>
     (case dropWhile isSpace (drop (pos + 1) src) of
        [] \<Rightarrow> False
      | ch # rest \<Rightarrow> isDigit ch \<or> ch = CHR ''+'' \<or> ch = CHR ''-''))"

text \<open>
  \<open>splitTopLevel\<close> walks the text once; its loop state is the bracket depth, the start
  of the current part and the parts cut so far.
\<close>

definition splitStep :: "string \<Rightarrow> char \<Rightarrow> nat \<times> nat \<times> string list \<Rightarrow> nat \<Rightarrow> nat \<times> nat \<times> string list" where
  "splitStep src sep state i =
    (case state of
       (depth, start, parts) \<Rightarrow>
         if src ! i = CHR ''['' then (depth + 1, start, parts)
         else if src ! i = CHR '']'' then ((if depth > 0 then depth - 1 else depth), start, parts)
         else if src ! i = sep \<and> depth = 0 then
           (if sep = CHR '','' \<and> isArgumentComma src i then (depth, start, parts)
            else (depth, i + 1, parts @ [slice src start i]))
         else (depth, start, parts))"

definition splitTopLevel :: "string \<Rightarrow> char \<Rightarrow> string list" where
  "splitTopLevel src sep =
    (case foldl (splitStep src sep) (0, 0, []) [0..<length src] of
       (depth, start, parts) \<Rightarrow> parts @ [drop start src])"

definition containsPlayableEvents :: "string \<Rightarrow> bool" where
  "containsPlayableEvents src = list_ex (\<lambda>c. isNote (lower c) \<or> lower c = CHR ''r'') src"

definition splitSectionsAsTracks :: "string \<Rightarrow> string list" where
  "splitSectionsAsTracks src =
    (let nonEmptySections = filter (\<lambda>x. x \<noteq> []) (map trimSpace (splitTopLevel src CHR '';'')) in
     if nonEmptySections = [] then []
     else
       let hasPrelude = (length nonEmptySections > 1
                         \<and> \<not> containsPlayableEvents (hd nonEmptySections));
           globalPrelude = (if hasPrelude then hd nonEmptySections else []);
           sections = (if hasPrelude then tl nonEmptySections else nonEmptySections);
           parts = concat (map (\<lambda>section.
                      map (\<lambda>part. if globalPrelude \<noteq> [] then globalPrelude @ '' '' @ part else part)
                        (filter (\<lambda>x. x \<noteq> []) (map trimSpace (splitTopLevel section CHR '',''))))
                    sections)
       in if parts = [] \<and> globalPrelude \<noteq> [] then [globalPrelude] else parts)"

definition parseQuantMax :: "(string \<rightharpoonup> string) \<Rightarrow> int" where
  "parseQuantMax defs =
    (case defs ''QUANT'' of
       None \<Rightarrow> 8
     | Some raw \<Rightarrow>
         (case atoi (trimSpace raw) of
            None \<Rightarrow> 8
          | Some v \<Rightarrow> if v \<le> 0 then 8 else v))"

definition parseTMODE :: "(string \<rightharpoonup> string) \<Rightarrow> string \<times> int \<times> int" where
  "parseTMODE defs =
    (case defs ''TMODE'' of
       None \<Rightarrow> ([], 100, 60)
     | Some raw0 \<Rightarrow>
         let raw = toLower (trimSpace raw0) in
         if hasPrefix raw ''unit='' then
           (case atoi (trimSpace (drop 5 raw)) of
              None \<Rightarrow> ([], 100, 60)
            | Some v \<Rightarrow> if v \<le> 0 then ([], 100, 60) else (''unit'', v, 60))
         else if hasPrefix raw ''fps='' then
           (case atoi (trimSpace (drop 4 raw)) of
              None \<Rightarrow> ([], 100, 60)
            | Some v \<Rightarrow> if v \<le> 0 then ([], 100, 60) else (''fps'', 100, v))
         else ([], 100, 60))"

fun parseParts ::
  "'f float_ops \<Rightarrow> 'f ParserConfig \<Rightarrow> parserOptions \<Rightarrow> (string \<rightharpoonup> string) \<Rightarrow> string list
   \<Rightarrow> perror + Track list" where
  "parseParts fl cfg opts defs [] = Inr []"
| "parseParts fl cfg opts defs (part # parts) =
    (if trimSpace part = [] then parseParts fl cfg opts defs parts
     else (case parseTrack fl cfg part opts defs of
             Inl e \<Rightarrow> Inl e
           | Inr (tr, bpm) \<Rightarrow>
               (case parseParts fl cfg opts defs parts of
                  Inl e \<Rightarrow> Inl e
                | Inr trs \<Rightarrow> Inr (tr # trs))))"

definition Parse :: "'f float_ops \<Rightarrow> 'f ParserConfig \<Rightarrow> string \<Rightarrow> perror + 'f Score" where
  "Parse fl cfg input =
    (let preprocessed = preprocessInput input;
         parts = splitSectionsAsTracks (pi_text preprocessed);
         (tmode, tunit, tfps) = parseTMODE (pi_definitions preprocessed);
         opts = \<lparr> opt_quantMax = parseQuantMax (pi_definitions preprocessed),
                  opt_tempoMode = tmode, opt_tempoUnit = tunit, opt_tempoFPS = tfps \<rparr>
     in case parseParts fl cfg opts (pi_definitions preprocessed) parts of
          Inl e \<Rightarrow> Inl e
        | Inr tracks \<Rightarrow>
            Inr \<lparr> sc_Resolution = cfg_Resolution cfg, sc_InitialBPM = cfg_DefaultBPM cfg,
                  sc_Tracks = tracks, sc_Definitions = pi_definitions preprocessed \<rparr>)"

section \<open>Properties of the parser\<close>

subsection \<open>Inputs for closed statements\<close>

text \<open>
  An interpretation of the floating-point operations in exact real arithmetic, and the
  options \<open>Parse\<close> passes to \<open>parseTrack\<close> when the score has no \<^verbatim>\<open>#QUANT\<close> and no
  \<^verbatim>\<open>#TMODE\<close> directive.
\<close>

definition idealFloat :: "real float_ops" where
  "idealFloat =
    \<lparr> f_of_int = of_int, f_add = (+), f_sub = (-), f_mul = (*), f_div = (/),
      f_less = (<), f_le = (\<le>),
      f_to_int = (\<lambda>x. if x \<ge> 0 then \<lfloor>x\<rfloor> else \<lceil>x\<rceil>),
      f_round = (\<lambda>x. if x \<ge> 0 then of_int \<lfloor>x + 1 / 2\<rfloor> else of_int \<lceil>x - 1 / 2\<rceil>),
      f_sqrt = sqrt, f_pow = (powr), f_max = max \<rparr>"

definition defaultOptions :: parserOptions where
  "defaultOptions = \<lparr> opt_quantMax = 8, opt_tempoMode = [], opt_tempoUnit = 100, opt_tempoFPS = 60 \<rparr>"

text \<open>What a parse result shows of its tracks: the notes, the gated durations, the errors.\<close>

definition errorOf :: "perror + 'a \<Rightarrow> perror option" where
  "errorOf r = (case r of Inl e \<Rightarrow> Some e | Inr x \<Rightarrow> None)"

definition notesOfTrack :: "Track \<Rightarrow> int list" where
  "notesOfTrack t = map ev_Note (filter (\<lambda>e. ev_Type e = EventNote) (tr_Events t))"


definition scoreNotes :: "perror + 'f Score \<Rightarrow> int list list option" where
  "scoreNotes r = (case r of Inl e \<Rightarrow> None | Inr sc \<Rightarrow> Some (map notesOfTrack (sc_Tracks sc)))"


subsection \<open>Arithmetic within the 64-bit range\<close>



lemma digitsValue_nonneg_aux:
  "0 \<le> a \<Longrightarrow> list_all isDigit ds \<Longrightarrow> 0 \<le> foldl (\<lambda>a c. 10 * a + (int (byte c) - 48)) a ds"
  by (induction ds arbitrary: a) (auto simp: isDigit_def)

lemma digitsValue_nonneg: "list_all isDigit ds \<Longrightarrow> 0 \<le> digitsValue ds"
  by (simp add: digitsValue_def digitsValue_nonneg_aux)

lemma atoi_digits_range:
  assumes "atoi ds = Some v" "ds \<noteq> []" "isDigit (hd ds)"
  shows "0 \<le> v \<and> v \<le> maxInt64"
proof -
  have h: "hd ds \<noteq> CHR ''-''" "hd ds \<noteq> CHR ''+''"
    using assms(3) by (auto simp: isDigit_def byte_def)
  from assms(1) h assms(2) have "list_all isDigit ds" "v = digitsValue ds" "v \<le> maxInt64"
    by (auto simp: atoi_def Let_def split: if_splits)
  thus ?thesis using digitsValue_nonneg by simp
qed

lemma parseNumberOptional_range:
  assumes "parseNumberOptional s pos = Inr (v, n)"
  shows "v = - 1 \<or> (0 \<le> v \<and> v \<le> maxInt64)"
proof (cases "pos = scanDigits s pos")
  case True
  with assms show ?thesis by (simp add: parseNumberOptional_def Let_def)
next
  case False
  let ?ds = "takeWhile isDigit (drop pos s)"
  have "take (length ?ds) (drop pos s) = ?ds"
    by (rule takeWhile_eq_take[symmetric])
  hence sl: "slice s pos (scanDigits s pos) = ?ds"
    by (simp add: slice_def scanDigits_def)
  from False have ne: "?ds \<noteq> []" by (auto simp: scanDigits_def)
  hence hd: "isDigit (hd ?ds)" by (metis hd_in_set set_takeWhileD)
  from assms False have "atoi ?ds = Some v"
    by (auto simp: parseNumberOptional_def Let_def sl split: option.splits)
  from atoi_digits_range[OF this ne hd] show ?thesis by simp
qed

lemma parseNumberDefault_range:
  assumes "parseNumberDefault s pos d = Inr (v, n)" "0 \<le> d" "d \<le> maxInt64"
  shows "0 \<le> v \<and> v \<le> maxInt64"
  using assms parseNumberOptional_range[of s pos]
  by (auto simp: parseNumberDefault_def split: sum.splits if_splits)

subsection \<open>Which case of the switch a command byte selects\<close>

lemma hasPrefix_drop_Cons:
  assumes "hasPrefix (drop i s) (c # cs)"
  shows "i < length s \<and> s ! i = c"
proof (cases "i < length s")
  case True
  hence "drop i s = s ! i # drop (Suc i) s" by (simp add: Cons_nth_drop_Suc)
  with assms True show ?thesis by (simp add: hasPrefix_def)
next
  case False
  with assms show ?thesis by (simp add: hasPrefix_def)
qed

lemma lower_ascii: "lower c = d \<Longrightarrow> byte d < 128 \<Longrightarrow> byte c < 128"
  by (cases "isUpper c") (auto simp: lower_def isUpper_def)

lemma no_guillemet:
  assumes "lower (s ! i) = d" "byte d < 128"
  shows "\<not> hasPrefix (drop i s) guillemetLeft" "\<not> hasPrefix (drop i s) guillemetRight"
proof -
  have b: "byte (s ! i) < 128" using lower_ascii[OF assms] .
  show "\<not> hasPrefix (drop i s) guillemetLeft"
    using b by (auto simp: guillemetLeft_def byte_def dest!: hasPrefix_drop_Cons)
  show "\<not> hasPrefix (drop i s) guillemetRight"
    using b by (auto simp: guillemetRight_def byte_def dest!: hasPrefix_drop_Cons)
qed






lemma parseCommand_q:
  "lower (s ! pt_i L) = CHR ''q'' \<Longrightarrow> parseCommand fl cfg opts s L = caseQuantize s L"
  using no_guillemet[of s "pt_i L" "CHR ''q''"]
  by (simp add: parseCommand_def Let_def isSpace_def isNote_def noteOffsets_def byte_def)

lemma parseCommand_p:
  "lower (s ! pt_i L) = CHR ''p'' \<Longrightarrow> parseCommand fl cfg opts s L = caseP s L"
  using no_guillemet[of s "pt_i L" "CHR ''p''"]
  by (simp add: parseCommand_def Let_def isSpace_def isNote_def noteOffsets_def byte_def)

lemma parseCommand_paren:
  "lower (s ! pt_i L) = CHR ''('' \<or> lower (s ! pt_i L) = CHR '')'' \<Longrightarrow>
   parseCommand fl cfg opts s L = caseParen s L"
  using no_guillemet[of s "pt_i L" "CHR ''(''"] no_guillemet[of s "pt_i L" "CHR '')''"]
  by (auto simp add: parseCommand_def Let_def isSpace_def isNote_def noteOffsets_def byte_def)

lemma parseCommand_at:
  "lower (s ! pt_i L) = CHR ''@'' \<Longrightarrow> parseCommand fl cfg opts s L = caseAt s L"
  using no_guillemet[of s "pt_i L" "CHR ''@''"]
  by (simp add: parseCommand_def Let_def isSpace_def isNote_def noteOffsets_def byte_def)

lemma startsWithWord_second:
  assumes "startsWithWord s i [a, b]"
  shows "i + 1 < length s \<and> lower (s ! (i + 1)) = lower b"
proof -
  from assms have len: "i + 2 \<le> length s" by (simp add: startsWithWord_def)
  hence "slice s i (i + 2) = [s ! i, s ! (i + 1)]"
    by (simp add: slice_def take_Suc_conv_app_nth numeral_2_eq_2 hd_drop_conv_nth take_Suc
             Cons_nth_drop_Suc[symmetric])
  with assms len show ?thesis by (simp add: startsWithWord_def)
qed

lemma caseAt_p: "startsWithWord s (pt_i L) ''@p'' \<Longrightarrow> caseAt s L = caseAtP s L"
  using startsWithWord_second[of s "pt_i L" "CHR ''@''" "CHR ''p''"]
  by (simp add: caseAt_def Let_def lower_def isUpper_def byte_def)



subsection \<open>The start of a track under the default configuration\<close>

definition startState :: "'f float_ops \<Rightarrow> 'f parseState" where
  "startState fl =
    \<lparr> st_resolution = 1920, st_tick = 0, st_octave = 5, st_defaultLen = 480,
      st_bpm = f_of_int fl 120, st_volume = 16, st_fineVol = 127, st_expression = 128,
      st_quantMax = 8, st_quantValue = 6, st_gatePercent = 75, st_keyOffTick = - 1,
      st_keyOnDelay = 0, st_slurMode = SlurNone, st_transpose = 0, st_detune = 0,
      st_pan = 0, st_program = 0, st_module = 0, st_channel = 0, st_revVolume = False,
      st_keySig = keySigNatural, st_vmode = [], st_vScaleMode = 0, st_vScaleMax = 16,
      st_xScaleMode = 0 \<rparr>"

definition startLocals :: "'f float_ops \<Rightarrow> 'f trackLocals" where
  "startLocals fl =
    \<lparr> pt_i = 0, pt_st = startState fl, pt_events = [], pt_loopTick = - 1, pt_loopIndex = - 1 \<rparr>"

lemma go_div_eval: "go_div (wrap64 24) 4 = 6" "go_div (wrap64 600) 8 = 75" "go_div 1920 4 = 480"
  by (simp_all add: go_div_def wrap64_def)

lemma isVolumeReversed_empty: "isVolumeReversed Map.empty = False"
  by (simp add: isVolumeReversed_def)

lemma trimSpace_Nil: "trimSpace [] = []"
  by (simp add: trimSpace_def)

lemma parseKeySignature_empty: "parseKeySignature Map.empty = keySigNatural"
  by (simp add: parseKeySignature_def lookupStr_def trimSpace_Nil)

lemma vmode_empty: "toLower (trimSpace (lookupStr Map.empty ''VMODE'')) = []"
  by (simp add: lookupStr_def trimSpace_Nil toLower_def)

lemma newState_default:
  "newState (DefaultParserConfig fl) defaultOptions Map.empty = Inr (startState fl)"
  unfolding newState_def DefaultParserConfig_def defaultOptions_def startState_def
  by (simp add: Let_def go_div_eval isVolumeReversed_empty parseKeySignature_empty vmode_empty)

subsection \<open>The number reader on a run of digits\<close>

lemma takeWhile_digits:
  assumes "list_all isDigit ds" "rest = [] \<or> \<not> isDigit (hd rest)"
  shows "takeWhile isDigit (ds @ rest) = ds"
proof -
  have "takeWhile isDigit rest = []" using assms(2) by (cases rest) auto
  thus ?thesis using assms(1) by (simp add: takeWhile_append2 list_all_iff)
qed

lemma atoi_digits:
  assumes "ds \<noteq> []" "list_all isDigit ds"
  shows "atoi ds = (if digitsValue ds \<le> maxInt64 then Some (digitsValue ds) else None)"
proof -
  have "isDigit (hd ds)" using assms by (cases ds) auto
  hence h: "hd ds \<noteq> CHR ''-''" "hd ds \<noteq> CHR ''+''"
    by (auto simp: isDigit_def byte_def)
  have "0 \<le> digitsValue ds" using assms(2) by (rule digitsValue_nonneg)
  thus ?thesis using assms h by (simp add: atoi_def Let_def)
qed

lemma parseNumberOptional_digits:
  assumes "drop pos s = ds @ rest" "ds \<noteq> []" "list_all isDigit ds"
    "rest = [] \<or> \<not> isDigit (hd rest)"
  shows "parseNumberOptional s pos =
           (if digitsValue ds \<le> maxInt64 then Inr (digitsValue ds, pos + length ds)
            else Inl ErrNumber)"
proof -
  have tw: "takeWhile isDigit (drop pos s) = ds"
    using takeWhile_digits[OF assms(3,4)] assms(1) by simp
  hence sc: "scanDigits s pos = pos + length ds" by (simp add: scanDigits_def)
  have sl: "slice s pos (pos + length ds) = ds"
    using assms(1) by (simp add: slice_def)
  show ?thesis using assms(2) atoi_digits[OF assms(2,3)]
    by (simp add: parseNumberOptional_def Let_def sc sl)
qed




lemma parseSignedNumberDefault_digits:
  assumes "drop pos s = sg @ ds @ rest" "sg = [] \<or> sg = ''+'' \<or> sg = ''-''"
    "ds \<noteq> []" "list_all isDigit ds" "rest = [] \<or> \<not> isDigit (hd rest)"
  shows "parseSignedNumberDefault s pos d =
           (if digitsValue ds \<le> maxInt64
            then Inr (if sg = ''-'' then - digitsValue ds else digitsValue ds,
                      pos + length sg + length ds)
            else Inl ErrNumber)"
proof -
  have lt: "pos < length s"
  proof (rule ccontr)
    assume "\<not> pos < length s"
    hence "drop pos s = []" by simp
    with assms(1,3) show False by simp
  qed
  hence d0: "drop pos s = s ! pos # drop (Suc pos) s" by (simp add: Cons_nth_drop_Suc)
  have dg: "isDigit (hd ds)" using assms(3,4) by (cases ds) auto
  hence nd: "hd ds \<noteq> CHR ''-''" "hd ds \<noteq> CHR ''+''" by (auto simp: isDigit_def byte_def)
  have nn: "0 \<le> digitsValue ds" using assms(4) by (rule digitsValue_nonneg)
  show ?thesis
  proof (cases "sg = []")
    case True
    hence "s ! pos = hd ds" using d0 assms(1,3) by (cases ds) auto
    hence ns: "s ! pos \<noteq> CHR ''-''" "s ! pos \<noteq> CHR ''+''" using nd by simp_all
    have "drop pos s = ds @ rest" using True assms(1) by simp
    from parseNumberOptional_digits[OF this assms(3,4,5)] show ?thesis
      using lt ns nn True by (simp add: parseSignedNumberDefault_def Let_def)
  next
    case False
    then obtain c where sg: "sg = [c]" "c = CHR ''+'' \<or> c = CHR ''-''"
      using assms(2) by auto
    hence c: "s ! pos = c" and dd: "drop (Suc pos) s = ds @ rest"
      using d0 assms(1) by auto
    from parseNumberOptional_digits[OF dd assms(3,4,5)] show ?thesis
      using lt c sg nn by (auto simp: parseSignedNumberDefault_def Let_def)
  qed
qed

subsection \<open>Pan commands\<close>

definition commandResult ::
  "perror + 'f trackLocals \<Rightarrow> perror + (int \<times> (EventType \<times> int \<times> int) list \<times> nat)" where
  "commandResult r =
    (case r of
       Inl e \<Rightarrow> Inl e
     | Inr L \<Rightarrow> Inr (st_pan (pt_st L),
                     map (\<lambda>e. (ev_Type e, ev_Tick e, ev_Value e)) (pt_events L), pt_i L))"

lemma step_fields:
  "pt_st (step L st evs n) = st" "pt_events (step L st evs n) = pt_events L @ evs"
  "pt_i (step L st evs n) = n" "pt_loopTick (step L st evs n) = pt_loopTick L"
  "pt_loopIndex (step L st evs n) = pt_loopIndex L"
  by (simp_all add: step_def)

lemma valueEvent_fields:
  "ev_Type (valueEvent ty t v) = ty" "ev_Tick (valueEvent ty t v) = t"
  "ev_Value (valueEvent ty t v) = v"
  by (simp_all add: valueEvent_def newEvent_def)

lemma pan_text_not_po:
  assumes "drop (i + 1) s = sg @ ds @ rest" "sg = [] \<or> sg = ''+'' \<or> sg = ''-''"
    "ds \<noteq> []" "list_all isDigit ds"
  shows "\<not> (i + 1 < length s \<and> lower (s ! (i + 1)) = CHR ''o'')"
proof
  assume a: "i + 1 < length s \<and> lower (s ! (i + 1)) = CHR ''o''"
  hence "drop (i + 1) s = s ! (i + 1) # drop (Suc (i + 1)) s"
    by (simp add: Cons_nth_drop_Suc)
  with assms have "s ! (i + 1) = CHR ''+'' \<or> s ! (i + 1) = CHR ''-'' \<or> isDigit (s ! (i + 1))"
    by (cases ds) auto
  with a show False by (auto simp: lower_def isUpper_def isDigit_def byte_def)
qed

lemma startsWithWord_first:
  assumes "startsWithWord s i (a # w)"
  shows "i < length s \<and> lower (s ! i) = lower a"
proof -
  from assms have len: "i < length s" by (simp add: startsWithWord_def)
  hence "drop i s = s ! i # drop (Suc i) s" by (simp add: Cons_nth_drop_Suc)
  with assms len show ?thesis by (simp add: startsWithWord_def slice_def)
qed

text \<open>
  C10, as the code has it.  A \<^verbatim>\<open>p\<close> or \<^verbatim>\<open>@p\<close> command followed by an optional sign and a
  run of digits \<open>ds\<close> reads the argument \<open>v\<close>, the value of the digits with the sign.  When
  the digits fit in a 64-bit integer, the command stores the pan \<open>(v - 4) * 16\<close> for \<open>v\<close> in
  0..8 and otherwise \<open>v\<close> clamped into [-64, 64], appends one Pan event that carries the
  stored pan at the current tick, and leaves the rest of the parser state as it was.
  When the digits do not fit, the command fails with the number error and nothing is
  clamped.
\<close>

theorem pan_argument_affine:
  assumes cmd: "(lower (s ! pt_i L) = CHR ''p'' \<and> j = pt_i L + 1)
            \<or> (startsWithWord s (pt_i L) ''@p'' \<and> j = pt_i L + 2)"
    and tx: "drop j s = sg @ ds @ rest" "sg = [] \<or> sg = ''+'' \<or> sg = ''-''"
      "ds \<noteq> []" "list_all isDigit ds" "rest = [] \<or> \<not> isDigit (hd rest)"
    and v: "v = (if sg = ''-'' then - digitsValue ds else digitsValue ds)"
    and pan: "pan = (if 0 \<le> v \<and> v \<le> 8 then (v - 4) * 16
                     else if v < - 64 then - 64 else if 64 < v then 64 else v)"
  shows "(digitsValue ds < 2 ^ 63 \<longrightarrow>
           (\<exists>L' e. parseCommand fl cfg opts s L = Inr L'
              \<and> st_pan (pt_st L') = pan
              \<and> pt_st L' = (pt_st L)\<lparr> st_pan := pan \<rparr>
              \<and> pt_events L' = pt_events L @ [e]
              \<and> ev_Type e = EventPan \<and> ev_Tick e = st_tick (pt_st L) \<and> ev_Value e = pan
              \<and> pt_i L' = j + length sg + length ds))
       \<and> (2 ^ 63 \<le> digitsValue ds \<longrightarrow> parseCommand fl cfg opts s L = Inl ErrNumber)"
proof -
  have np: "normalizePanValue v = pan"
    unfolding pan by (simp add: normalizePanValue_def clampInt_def)
  have rd: "parseSignedNumberDefault s j (st_pan (pt_st L)) =
           (if digitsValue ds \<le> maxInt64 then Inr (v, j + length sg + length ds)
            else Inl ErrNumber)"
    unfolding v by (rule parseSignedNumberDefault_digits[OF tx])
  have m: "digitsValue ds \<le> maxInt64 \<longleftrightarrow> digitsValue ds < 2 ^ 63"
    unfolding maxInt64_def by linarith
  from cmd have pc: "parseCommand fl cfg opts s L =
    (case parseSignedNumberDefault s j (st_pan (pt_st L)) of
       Inl e \<Rightarrow> Inl e
     | Inr (val, n) \<Rightarrow>
         Inr (step L ((pt_st L)\<lparr> st_pan := normalizePanValue val \<rparr>)
                [valueEvent EventPan (st_tick (pt_st L)) (normalizePanValue val)] n))"
  proof
    assume a: "lower (s ! pt_i L) = CHR ''p'' \<and> j = pt_i L + 1"
    hence "drop (pt_i L + 1) s = sg @ ds @ rest" using tx(1) by simp
    from pan_text_not_po[OF this tx(2,3,4)] a show ?thesis
      by (auto simp: parseCommand_p caseP_def Let_def)
  next
    assume a: "startsWithWord s (pt_i L) ''@p'' \<and> j = pt_i L + 2"
    hence "lower (s ! pt_i L) = CHR ''@''"
      using startsWithWord_first[of s "pt_i L" "CHR ''@''" "''p''"]
      by (simp add: lower_def isUpper_def byte_def)
    thus ?thesis using a by (simp add: parseCommand_at caseAt_p caseAtP_def Let_def)
  qed
  show ?thesis
  proof (cases "digitsValue ds < 2 ^ 63")
    case True
    hence "parseCommand fl cfg opts s L =
       Inr (step L ((pt_st L)\<lparr> st_pan := pan \<rparr>)
              [valueEvent EventPan (st_tick (pt_st L)) pan] (j + length sg + length ds))"
      using pc rd m np by simp
    thus ?thesis using True by (simp add: step_fields valueEvent_fields)
  next
    case False
    thus ?thesis using pc rd m by simp
  qed
qed

lemma digitsValue_eval: "digitsValue ''8'' = 8" "digitsValue ''70'' = 70"
  "digitsValue ''9223372036854775808'' = 9223372036854775808"
  by (simp_all add: digitsValue_def byte_def)

theorem pan_argument_affine_witness:
  "commandResult (parseCommand idealFloat (DefaultParserConfig idealFloat) defaultOptions
     ''p8'' (startLocals idealFloat)) = Inr (64, [(EventPan, 0, 64)], 2)
   \<and> commandResult (parseCommand idealFloat (DefaultParserConfig idealFloat) defaultOptions
     ''@p-70'' (startLocals idealFloat)) = Inr (- 64, [(EventPan, 0, - 64)], 5)
   \<and> commandResult (parseCommand idealFloat (DefaultParserConfig idealFloat) defaultOptions
     ''p9223372036854775808'' (startLocals idealFloat)) = Inl ErrNumber"
proof -
  have i0: "pt_i (startLocals idealFloat) = 0" "pt_events (startLocals idealFloat) = []"
    "st_tick (pt_st (startLocals idealFloat)) = 0"
    by (simp_all add: startLocals_def startState_def)
  have r1: "commandResult (parseCommand idealFloat (DefaultParserConfig idealFloat)
     defaultOptions ''p8'' (startLocals idealFloat)) = Inr (64, [(EventPan, 0, 64)], 2)"
    using pan_argument_affine[where s = "''p8''" and L = "startLocals idealFloat" and j = 1
        and sg = "[]" and ds = "''8''" and rest = "[]" and v = 8 and pan = 64
        and fl = idealFloat and cfg = "DefaultParserConfig idealFloat" and opts = defaultOptions]
    by (auto simp: i0 digitsValue_eval isDigit_def lower_def isUpper_def byte_def
          commandResult_def)
  have r2: "commandResult (parseCommand idealFloat (DefaultParserConfig idealFloat)
     defaultOptions ''@p-70'' (startLocals idealFloat)) = Inr (- 64, [(EventPan, 0, - 64)], 5)"
    using pan_argument_affine[where s = "''@p-70''" and L = "startLocals idealFloat" and j = 2
        and sg = "''-''" and ds = "''70''" and rest = "[]" and v = "- 70" and pan = "- 64"
        and fl = idealFloat and cfg = "DefaultParserConfig idealFloat" and opts = defaultOptions]
    by (auto simp: i0 digitsValue_eval isDigit_def lower_def isUpper_def byte_def
          commandResult_def startsWithWord_def slice_def)
  have r3: "commandResult (parseCommand idealFloat (DefaultParserConfig idealFloat)
     defaultOptions ''p9223372036854775808'' (startLocals idealFloat)) = Inl ErrNumber"
    using pan_argument_affine[where s = "''p9223372036854775808''"
        and L = "startLocals idealFloat" and j = 1
        and sg = "[]" and ds = "''9223372036854775808''" and rest = "[]"
        and v = 9223372036854775808 and pan = 64
        and fl = idealFloat and cfg = "DefaultParserConfig idealFloat" and opts = defaultOptions]
    by (auto simp: i0 digitsValue_eval isDigit_def lower_def isUpper_def byte_def
          commandResult_def)
  from r1 r2 r3 show ?thesis by simp
qed

lemma error_p_large:
  "errorOf (Parse fl (DefaultParserConfig fl) ''p9223372036854775808'') = Some ErrNumber"
  by code_simp

text \<open>
  C10 as stated fails for an argument that does not fit in a 64-bit integer: the score
  \<^verbatim>\<open>p9223372036854775808\<close> is refused with the number error, no pan is stored.
\<close>

theorem pan_argument_counterexample:
  "errorOf (Parse idealFloat (DefaultParserConfig idealFloat) ''p9223372036854775808'')
   = Some ErrNumber"
  by (rule error_p_large)

subsection \<open>Octave shifts\<close>










subsection \<open>Arguments out of range\<close>










subsection \<open>Gate time\<close>















subsection \<open>Macro expansion modes\<close>

definition macroExample :: string where
  "macroExample = ''#A=cde;#B=Afg; B; #A=gfe; B;''"

lemma macro_default_text: "pi_text (preprocessInput macroExample) = '' cdefg;  cdefg;''"
  by code_simp

lemma macro_static_text:
  "pi_text (preprocessInput (''#MACRO{static};'' @ macroExample)) = '' cdefg;  cdefg;''"
  by code_simp

lemma macro_dynamic_text:
  "pi_text (preprocessInput (''#MACRO{dynamic};'' @ macroExample)) = '' cdefg;  gfefg;''"
  by code_simp

lemma macro_static_notes:
  "scoreNotes (Parse fl (DefaultParserConfig fl) (''#MACRO{static};'' @ macroExample))
   = Some [[60, 62, 64, 65, 67], [60, 62, 64, 65, 67]]"
  by code_simp

lemma macro_dynamic_notes:
  "scoreNotes (Parse fl (DefaultParserConfig fl) (''#MACRO{dynamic};'' @ macroExample))
   = Some [[60, 62, 64, 65, 67], [67, 65, 64, 65, 67]]"
  by code_simp

lemma macro_static_tracks:
  "splitSectionsAsTracks (pi_text (preprocessInput (''#MACRO{static};'' @ macroExample)))
   = [''cdefg'', ''cdefg'']"
  by code_simp

lemma macro_dynamic_tracks:
  "splitSectionsAsTracks (pi_text (preprocessInput (''#MACRO{dynamic};'' @ macroExample)))
   = [''cdefg'', ''gfefg'']"
  by code_simp

text \<open>
  C7.  Preprocessing \<^verbatim>\<open>#A=cde;#B=Afg; B; #A=gfe; B;\<close> in static mode (the default, also
  selected by \<^verbatim>\<open>#MACRO{static};\<close>) gives the text \<^verbatim>\<open> cdefg;  cdefg;\<close>: the two tracks \<^verbatim>\<open>cdefg\<close>
  and \<^verbatim>\<open>cdefg\<close>, whose notes are c d e f g twice.  In dynamic mode (\<^verbatim>\<open>#MACRO{dynamic};\<close>) it
  gives \<^verbatim>\<open> cdefg;  gfefg;\<close>: the tracks \<^verbatim>\<open>cdefg\<close> and \<^verbatim>\<open>gfefg\<close>, the second with the notes
  g f e f g, because \<^verbatim>\<open>B\<close> then reads the redefined \<^verbatim>\<open>A\<close>.
\<close>

theorem macro_static_and_dynamic:
  "pi_text (preprocessInput macroExample) = '' cdefg;  cdefg;''
   \<and> pi_text (preprocessInput (''#MACRO{static};'' @ macroExample)) = '' cdefg;  cdefg;''
   \<and> splitSectionsAsTracks (pi_text (preprocessInput (''#MACRO{static};'' @ macroExample)))
       = [''cdefg'', ''cdefg'']
   \<and> scoreNotes (Parse idealFloat (DefaultParserConfig idealFloat)
         (''#MACRO{static};'' @ macroExample))
       = Some [[60, 62, 64, 65, 67], [60, 62, 64, 65, 67]]
   \<and> pi_text (preprocessInput (''#MACRO{dynamic};'' @ macroExample)) = '' cdefg;  gfefg;''
   \<and> splitSectionsAsTracks (pi_text (preprocessInput (''#MACRO{dynamic};'' @ macroExample)))
       = [''cdefg'', ''gfefg'']
   \<and> scoreNotes (Parse idealFloat (DefaultParserConfig idealFloat)
         (''#MACRO{dynamic};'' @ macroExample))
       = Some [[60, 62, 64, 65, 67], [67, 65, 64, 65, 67]]"
  using macro_default_text macro_static_text macro_dynamic_text macro_static_tracks
    macro_dynamic_tracks macro_static_notes[of idealFloat] macro_dynamic_notes[of idealFloat]
  by blast

theorem macro_static_and_dynamic_witness:
  "pi_text (preprocessInput (''#MACRO{static};'' @ macroExample))
     \<noteq> pi_text (preprocessInput (''#MACRO{dynamic};'' @ macroExample))
   \<and> scoreNotes (Parse idealFloat (DefaultParserConfig idealFloat)
         (''#MACRO{dynamic};'' @ macroExample))
       = Some [[60, 62, 64, 65, 67], [67, 65, 64, 65, 67]]"
  using macro_static_and_dynamic by simp

end
